theory Spec2Isabelle
  imports Main
begin

section \<open>Python values\<close>

text \<open>
  The records that travel through \<^verbatim>\<open>confluence_connector.py\<close> and
  \<^verbatim>\<open>genai_agent.py\<close> are the dictionaries, lists and scalars that the remote
  services return as parsed JSON. A text is a \<^typ>\<open>string\<close>, one HOL character for one
  character of the Python \<^verbatim>\<open>str\<close>; the model is exact on ASCII text. JSON numbers with
  a fraction are not part of the value type. The keys of a dictionary are distinct, as
  in Python; its pairs are kept in insertion order.
\<close>

datatype json =
    JNull
  | JBool bool
  | JInt int
  | JStr string
  | JList "json list"
  | JDict "(string \<times> json) list"

type_synonym pydict = "(string \<times> json) list"

text \<open>
  An exception is known to the program only through \<^verbatim>\<open>str(e)\<close>, its message text.
  Only instances of \<^verbatim>\<open>Exception\<close> are modelled, the ones \<^verbatim>\<open>except Exception\<close>
  catches. The texts of the interpreter's own errors are those of CPython 3.11.
\<close>

datatype exn = Exception string

fun str_exn :: "exn \<Rightarrow> string" where
  "str_exn (Exception m) = m"

fun bind_e :: "exn + 'a \<Rightarrow> ('a \<Rightarrow> exn + 'b) \<Rightarrow> exn + 'b" where
  "bind_e (Inl e) f = Inl e"
| "bind_e (Inr x) f = f x"

fun map_e :: "('a \<Rightarrow> exn + 'b) \<Rightarrow> 'a list \<Rightarrow> exn + 'b list" where
  "map_e f [] = Inr []"
| "map_e f (x # xs) = bind_e (f x) (\<lambda>y. bind_e (map_e f xs) (\<lambda>ys. Inr (y # ys)))"

fun py_truthy :: "json \<Rightarrow> bool" where
  "py_truthy JNull = False"
| "py_truthy (JBool b) = b"
| "py_truthy (JInt n) = (n \<noteq> 0)"
| "py_truthy (JStr s) = (s \<noteq> [])"
| "py_truthy (JList xs) = (xs \<noteq> [])"
| "py_truthy (JDict kvs) = (kvs \<noteq> [])"

fun type_name :: "json \<Rightarrow> string" where
  "type_name JNull = ''NoneType''"
| "type_name (JBool b) = ''bool''"
| "type_name (JInt n) = ''int''"
| "type_name (JStr s) = ''str''"
| "type_name (JList xs) = ''list''"
| "type_name (JDict kvs) = ''dict''"

subsection \<open>Rendering: \<^verbatim>\<open>str\<close> and \<^verbatim>\<open>repr\<close>\<close>

definition digit_char :: "nat \<Rightarrow> char" where
  "digit_char d = ''0123456789abcdef'' ! (d mod 16)"

fun str_nat :: "nat \<Rightarrow> string" where
  "str_nat n = (if n < 10 then [digit_char n] else str_nat (n div 10) @ [digit_char (n mod 10)])"

definition str_int :: "int \<Rightarrow> string" where
  "str_int i = (if i < 0 then ''-'' @ str_nat (nat (- i)) else str_nat (nat i))"

definition repr_char :: "char \<Rightarrow> char \<Rightarrow> string" where
  "repr_char q c =
     (if c = q \<or> c = CHR 0x5C then [CHR 0x5C, c]
      else if c = CHR 0x09 then [CHR 0x5C, CHR ''t'']
      else if c = CHR 0x0A then [CHR 0x5C, CHR ''n'']
      else if c = CHR 0x0D then [CHR 0x5C, CHR ''r'']
      else if (of_char c :: nat) < 32 \<or> c = CHR 0x7F
        then [CHR 0x5C, CHR ''x'', digit_char (of_char c div 16), digit_char (of_char c mod 16)]
      else [c])"

definition repr_str :: "string \<Rightarrow> string" where
  "repr_str s =
     (let q = (if CHR 0x27 \<in> set s \<and> CHR 0x22 \<notin> set s then CHR 0x22 else CHR 0x27)
      in [q] @ concat (map (repr_char q) s) @ [q])"

fun join :: "string \<Rightarrow> string list \<Rightarrow> string" where
  "join sep [] = []"
| "join sep [x] = x"
| "join sep (x # y # ys) = x @ sep @ join sep (y # ys)"

fun py_repr :: "json \<Rightarrow> string" where
  "py_repr JNull = ''None''"
| "py_repr (JBool b) = (if b then ''True'' else ''False'')"
| "py_repr (JInt n) = str_int n"
| "py_repr (JStr s) = repr_str s"
| "py_repr (JList xs) = ''['' @ join '', '' (map py_repr xs) @ '']''"
| "py_repr (JDict kvs) =
     ''{'' @ join '', '' (map (\<lambda>kv. repr_str (fst kv) @ '': '' @ py_repr (snd kv)) kvs) @ ''}''"

text \<open>What an f-string writes for a value: \<^verbatim>\<open>str(v)\<close>.\<close>

fun py_str :: "json \<Rightarrow> string" where
  "py_str (JStr s) = s"
| "py_str v = py_repr v"

subsection \<open>Dictionary access, slices, iteration\<close>

text \<open>\<^verbatim>\<open>d.get(k, default)\<close> on a dictionary.\<close>

definition dict_get :: "pydict \<Rightarrow> string \<Rightarrow> json \<Rightarrow> json" where
  "dict_get d k dflt = (case map_of d k of None \<Rightarrow> dflt | Some v \<Rightarrow> v)"

text \<open>\<^verbatim>\<open>v.get(k, default)\<close> on any value: only a dictionary has the method.\<close>

fun py_get :: "json \<Rightarrow> string \<Rightarrow> json \<Rightarrow> exn + json" where
  "py_get (JDict d) k dflt = Inr (dict_get d k dflt)"
| "py_get v k dflt =
     Inl (Exception ([CHR 0x27] @ type_name v @ [CHR 0x27] @ '' object has no attribute 'get'' @ [CHR 0x27]))"

text \<open>\<^verbatim>\<open>d[k]\<close> on a dictionary: \<^verbatim>\<open>KeyError\<close>, whose text is the key's \<^verbatim>\<open>repr\<close>.\<close>

definition dict_item :: "pydict \<Rightarrow> string \<Rightarrow> exn + json" where
  "dict_item d k = (case map_of d k of None \<Rightarrow> Inl (Exception (repr_str k)) | Some v \<Rightarrow> Inr v)"

text \<open>\<^verbatim>\<open>v[:n]\<close>: texts and lists have slices.\<close>

fun py_slice :: "nat \<Rightarrow> json \<Rightarrow> exn + json" where
  "py_slice n (JStr s) = Inr (JStr (take n s))"
| "py_slice n (JList xs) = Inr (JList (take n xs))"
| "py_slice n (JDict d) = Inl (Exception (''unhashable type: 'slice'' @ [CHR 0x27]))"
| "py_slice n v =
     Inl (Exception ([CHR 0x27] @ type_name v @ [CHR 0x27] @ '' object is not subscriptable''))"

text \<open>\<^verbatim>\<open>for x in v\<close>: a list gives its elements, a dictionary its keys, a text its characters.\<close>

fun py_iter :: "json \<Rightarrow> exn + json list" where
  "py_iter (JList xs) = Inr xs"
| "py_iter (JDict d) = Inr (map (\<lambda>kv. JStr (fst kv)) d)"
| "py_iter (JStr s) = Inr (map (\<lambda>c. JStr [c]) s)"
| "py_iter v =
     Inl (Exception ([CHR 0x27] @ type_name v @ [CHR 0x27] @ '' object is not iterable''))"

text \<open>\<^verbatim>\<open>s + v\<close> for a text \<open>s\<close>.\<close>

fun str_concat :: "string \<Rightarrow> json \<Rightarrow> exn + json" where
  "str_concat s (JStr t) = Inr (JStr (s @ t))"
| "str_concat s v =
     Inl (Exception (''can only concatenate str (not '' @ [CHR 0x22] @ type_name v @ [CHR 0x22] @ '') to str''))"

section \<open>Text operations of the source\<close>

text \<open>\<^verbatim>\<open>s.rstrip('/')\<close>: every trailing slash is removed.\<close>

definition rstrip_slash :: "string \<Rightarrow> string" where
  "rstrip_slash s = rev (dropWhile (\<lambda>c. c = CHR ''/'') (rev s))"

text \<open>\<^verbatim>\<open>s.lower()\<close>, on the letters A to Z.\<close>

definition lower_char :: "char \<Rightarrow> char" where
  "lower_char c =
     (case map_of (zip ''ABCDEFGHIJKLMNOPQRSTUVWXYZ'' ''abcdefghijklmnopqrstuvwxyz'') c of
        None \<Rightarrow> c
      | Some l \<Rightarrow> l)"

definition lower :: "string \<Rightarrow> string" where
  "lower s = map lower_char s"

text \<open>\<^verbatim>\<open>sub in s\<close>: \<open>sub\<close> occurs in \<open>s\<close> as a contiguous run.\<close>

fun starts_with :: "string \<Rightarrow> string \<Rightarrow> bool" where
  "starts_with [] s = True"
| "starts_with (p # ps) [] = False"
| "starts_with (p # ps) (c # cs) = (p = c \<and> starts_with ps cs)"

fun py_in :: "string \<Rightarrow> string \<Rightarrow> bool" where
  "py_in sub [] = (sub = [])"
| "py_in sub (c # cs) = (starts_with sub (c # cs) \<or> py_in sub cs)"

subsection \<open>The tag-stripping rule\<close>

text \<open>
  \<^verbatim>\<open>re.sub('<[^<]+?>', '', content)\<close>. At a position the pattern matches a
  \<^verbatim>\<open><\<close>, then one or more characters other than \<^verbatim>\<open><\<close> (as few as possible, a
  newline included), then a \<^verbatim>\<open>>\<close>. \<open>find_close\<close> is the lazy repetition once its first
  character is taken: it stops at the first \<^verbatim>\<open>>\<close> and fails at a \<^verbatim>\<open><\<close> or at
  the end of the text. \<open>match_tag\<close> gives the text after the match. \<open>strip_tags\<close> is the
  substitution: the matches are found from left to right, do not overlap, and a
  character where no match starts is kept.
\<close>

fun find_close :: "string \<Rightarrow> string option" where
  "find_close [] = None"
| "find_close (c # cs) =
     (if c = CHR ''>'' then Some cs else if c = CHR ''<'' then None else find_close cs)"

fun match_tag :: "string \<Rightarrow> string option" where
  "match_tag (c # d # cs) = (if c = CHR ''<'' \<and> d \<noteq> CHR ''<'' then find_close cs else None)"
| "match_tag [c] = None"
| "match_tag [] = None"

lemma find_close_length: "find_close s = Some r \<Longrightarrow> length r < length s"
  by (induction s) (auto split: if_splits)

lemma match_tag_length: "match_tag s = Some r \<Longrightarrow> length r < length s"
  by (cases s rule: match_tag.cases) (auto split: if_splits dest: find_close_length)

function strip_tags :: "string \<Rightarrow> string" where
  "strip_tags [] = []"
| "strip_tags (c # cs) =
     (case match_tag (c # cs) of
        Some rest \<Rightarrow> strip_tags rest
      | None \<Rightarrow> c # strip_tags cs)"
  by pat_completeness auto
termination
  by (relation "measure length") (auto dest: match_tag_length)

text \<open>The substitution refuses a value that is not a text.\<close>

fun re_sub_tags :: "json \<Rightarrow> exn + string" where
  "re_sub_tags (JStr s) = Inr (strip_tags s)"
| "re_sub_tags v =
     Inl (Exception (''expected string or bytes-like object, got '' @ [CHR 0x27] @ type_name v @ [CHR 0x27]))"

text \<open>
  The snippet of a search result (\<^verbatim>\<open>search_content\<close>):
  \<^verbatim>\<open>text_content = re.sub('<[^<]+?>', '', content)[:300]\<close>.
\<close>

definition snippet :: "json \<Rightarrow> exn + string" where
  "snippet content = bind_e (re_sub_tags content) (\<lambda>text. Inr (take 300 text))"

text \<open>A text holds a tag when the pattern matches somewhere in it.\<close>

fun has_tag :: "string \<Rightarrow> bool" where
  "has_tag [] = False"
| "has_tag (c # cs) = (match_tag (c # cs) \<noteq> None \<or> has_tag cs)"

text \<open>
  Every \<^verbatim>\<open><\<close> of the text opens a tag: the pattern matches at each of them.
\<close>

fun well_tagged :: "string \<Rightarrow> bool" where
  "well_tagged [] = True"
| "well_tagged (c # cs) = ((if c = CHR ''<'' then match_tag (c # cs) \<noteq> None else True) \<and> well_tagged cs)"

subsection \<open>The url of a page\<close>

text \<open>
  \<^verbatim>\<open>self.url.rstrip('/') + page.get('_links', {}).get('webui', '')\<close>, the second
  operand already read.
\<close>

definition page_url :: "string \<Rightarrow> json \<Rightarrow> exn + json" where
  "page_url base webui = str_concat (rstrip_slash base) webui"

section \<open>The record formatters (\<^verbatim>\<open>genai_agent.py\<close>)\<close>

text \<open>
  Each formatter starts from a heading and runs
  \<^verbatim>\<open>for i, r in enumerate(records, 1): formatted += ...\<close>. \<open>format_loop\<close> is that loop:
  \<open>entry i r\<close> is the text the body appends for the record \<open>r\<close> at number \<open>i\<close>, or the
  exception the body raises.
\<close>

fun format_loop :: "(nat \<Rightarrow> pydict \<Rightarrow> exn + string) \<Rightarrow> nat \<Rightarrow> pydict list \<Rightarrow> string \<Rightarrow> exn + string" where
  "format_loop entry i [] formatted = Inr formatted"
| "format_loop entry i (r # rs) formatted =
     (case entry i r of
        Inl e \<Rightarrow> Inl e
      | Inr block \<Rightarrow> format_loop entry (Suc i) rs (formatted @ block))"

text \<open>The body of the loop of \<^verbatim>\<open>_format_search_results\<close>.\<close>

definition search_entry :: "nat \<Rightarrow> pydict \<Rightarrow> exn + string" where
  "search_entry i result =
     (let title = ''\<newline>'' @ str_nat i @ ''. Title: '' @ py_str (dict_get result ''title'' (JStr ''N/A'')) @ ''\<newline>'';
          space = ''   Space: '' @
            py_str (dict_get result ''space_name'' (dict_get result ''space'' (JStr ''N/A''))) @ ''\<newline>'';
          type = ''   Type: '' @ py_str (dict_get result ''type'' (JStr ''N/A'')) @ ''\<newline>'';
          url = (if py_truthy (dict_get result ''url'' JNull)
                 then ''   URL: '' @ py_str (dict_get result ''url'' (JStr ''N/A'')) @ ''\<newline>''
                 else [])
      in if py_truthy (dict_get result ''content'' JNull)
         then bind_e (py_slice 200 (dict_get result ''content'' (JStr [])))
                (\<lambda>preview. Inr (title @ space @ type @
                   ''   Content: '' @ py_str preview @ ''...\<newline>'' @ url))
         else Inr (title @ space @ type @ url))"

definition format_search_results :: "pydict list \<Rightarrow> exn + string" where
  "format_search_results results =
     (if results = [] then Inr ''No results found.''
      else format_loop search_entry 1 results ''Search Results:\<newline>'')"

text \<open>The body of the loop of \<^verbatim>\<open>_format_pages\<close>.\<close>

definition page_entry :: "nat \<Rightarrow> pydict \<Rightarrow> exn + string" where
  "page_entry i page =
     (let title = ''\<newline>'' @ str_nat i @ ''. '' @ py_str (dict_get page ''title'' (JStr ''N/A'')) @ ''\<newline>'';
          ident = ''   ID: '' @ py_str (dict_get page ''id'' (JStr ''N/A'')) @ ''\<newline>'';
          url = (if py_truthy (dict_get page ''url'' JNull)
                 then ''   URL: '' @ py_str (dict_get page ''url'' (JStr ''N/A'')) @ ''\<newline>''
                 else [])
      in if py_truthy (dict_get page ''content'' JNull)
         then bind_e (py_slice 150 (dict_get page ''content'' (JStr [])))
                (\<lambda>preview. Inr (title @ ident @
                   ''   Preview: '' @ py_str preview @ ''...\<newline>'' @ url))
         else Inr (title @ ident @ url))"

definition format_pages :: "pydict list \<Rightarrow> json \<Rightarrow> exn + string" where
  "format_pages pages space_key =
     (if pages = [] then Inr (''No pages found in space: '' @ py_str space_key)
      else format_loop page_entry 1 pages
             (''Pages from space '' @ [CHR 0x27] @ py_str space_key @ [CHR 0x27] @ '':\<newline>''))"

text \<open>The body of the loop of \<^verbatim>\<open>_format_spaces\<close>.\<close>

definition space_entry :: "nat \<Rightarrow> pydict \<Rightarrow> exn + string" where
  "space_entry i space =
     (let name = ''\<newline>'' @ str_nat i @ ''. '' @ py_str (dict_get space ''name'' (JStr ''N/A'')) @
            '' (Key: '' @ py_str (dict_get space ''key'' (JStr ''N/A'')) @ '')\<newline>'';
          type = ''   Type: '' @ py_str (dict_get space ''type'' (JStr ''N/A'')) @ ''\<newline>''
      in if py_truthy (dict_get space ''description'' JNull)
         then bind_e (py_slice 100 (dict_get space ''description'' (JStr [])))
                (\<lambda>preview. Inr (name @
                   ''   Description: '' @ py_str preview @ ''...\<newline>'' @ type))
         else Inr (name @ type))"

definition format_spaces :: "pydict list \<Rightarrow> exn + string" where
  "format_spaces spaces =
     (if spaces = [] then Inr ''No spaces found.''
      else format_loop space_entry 1 spaces ''Available Confluence Spaces:\<newline>'')"

section \<open>The external services and the effects of a call\<close>

text \<open>
  The program talks to two services. A request to the wiki goes through a method of the
  \<^verbatim>\<open>atlassian.Confluence\<close> client; the constant arguments of the source
  (\<^verbatim>\<open>start=0\<close>, \<^verbatim>\<open>cloud=True\<close>) are not repeated in the request.
\<close>

datatype api_call =
    NewClient string string string
  | GetAllSpaces json "string option"
  | GetAllPagesFromSpace json json string
  | Cql string json string
  | GetPageById string string
  | GetPageByTitle string string

text \<open>
  A request to the language model: \<^verbatim>\<open>client.chat.completions.create\<close>. The
  temperature, 0.1 or 0.7 in the source, is counted in tenths. The answer of the service
  is read only as \<^verbatim>\<open>response.choices[k].message.content\<close>: a list of contents, each a
  text or \<^verbatim>\<open>None\<close>.
\<close>

record chat_request =
  req_model :: string
  messages :: "(string \<times> string) list"
  temperature :: nat

datatype level = LInfo | LWarning | LError

datatype event =
    Api api_call
  | Chat chat_request
  | Log level string

text \<open>
  What the services answer, and what \<^verbatim>\<open>json.loads\<close> makes of a text, is given from
  outside: an exception or a value.
\<close>

record env =
  confluence_api :: "api_call \<Rightarrow> exn + json"
  chat_create :: "chat_request \<Rightarrow> exn + string option list"
  json_loads :: "string \<Rightarrow> exn + json"

text \<open>
  A method runs from a state, whether \<^verbatim>\<open>self.confluence\<close> holds a client, and gives
  a value or an exception, the new state and the events it caused, in order.
\<close>

type_synonym 'a prog = "bool \<Rightarrow> (exn + 'a) \<times> bool \<times> event list"

definition succeed :: "'a \<Rightarrow> 'a prog" where
  "succeed x = (\<lambda>h. (Inr x, h, []))"

definition raise :: "exn \<Rightarrow> 'a prog" where
  "raise e = (\<lambda>h. (Inl e, h, []))"

definition lift :: "exn + 'a \<Rightarrow> 'a prog" where
  "lift r = (\<lambda>h. (r, h, []))"

definition bind_p :: "'a prog \<Rightarrow> ('a \<Rightarrow> 'b prog) \<Rightarrow> 'b prog" where
  "bind_p m f =
     (\<lambda>h. case m h of
        (Inl e, h', evs) \<Rightarrow> (Inl e, h', evs)
      | (Inr x, h', evs) \<Rightarrow> (case f x h' of (r, h'', evs') \<Rightarrow> (r, h'', evs @ evs')))"

text \<open>\<^verbatim>\<open>try: m except Exception as e: handler\<close>.\<close>

definition try_except :: "'a prog \<Rightarrow> (exn \<Rightarrow> 'a prog) \<Rightarrow> 'a prog" where
  "try_except m handler =
     (\<lambda>h. case m h of
        (Inl e, h', evs) \<Rightarrow> (case handler e h' of (r, h'', evs') \<Rightarrow> (r, h'', evs @ evs'))
      | (Inr x, h', evs) \<Rightarrow> (Inr x, h', evs))"

definition log :: "level \<Rightarrow> string \<Rightarrow> unit prog" where
  "log l msg = (\<lambda>h. (Inr (), h, [Log l msg]))"

definition call_api :: "env \<Rightarrow> api_call \<Rightarrow> json prog" where
  "call_api env c = (\<lambda>h. (confluence_api env c, h, [Api c]))"

definition call_chat :: "env \<Rightarrow> chat_request \<Rightarrow> string option list prog" where
  "call_chat env r = (\<lambda>h. (chat_create env r, h, [Chat r]))"

definition get_handle :: "bool prog" where
  "get_handle = (\<lambda>h. (Inr h, h, []))"

definition set_handle :: "unit prog" where
  "set_handle = (\<lambda>h. (Inr (), True, []))"

definition result_of :: "(exn + 'a) \<times> bool \<times> event list \<Rightarrow> exn + 'a" where
  "result_of r = fst r"

definition events_of :: "(exn + 'a) \<times> bool \<times> event list \<Rightarrow> event list" where
  "events_of r = snd (snd r)"

section \<open>The content source adapter (\<^verbatim>\<open>confluence_connector.py\<close>)\<close>

record connector =
  url :: string
  username :: string
  api_token :: string
  default_space :: "string option"

text \<open>
  \<^verbatim>\<open>connect\<close>: the client is built and stored; the probe that follows may fail
  without failing the connection.
\<close>

definition connect :: "env \<Rightarrow> connector \<Rightarrow> unit prog" where
  "connect env c =
     try_except
       (bind_p (call_api env (NewClient (url c) (username c) (api_token c))) (\<lambda>client.
        bind_p set_handle (\<lambda>u.
        try_except
          (bind_p (call_api env (GetAllSpaces (JInt 1) None)) (\<lambda>spaces.
           log LInfo (''Successfully connected to Confluence as: '' @ username c)))
          (\<lambda>verify_error.
             bind_p (log LWarning (''Could not verify connection by getting spaces: '' @
                        str_exn verify_error)) (\<lambda>u.
             log LInfo (''Confluence connection initialized for: '' @ username c))))))
       (\<lambda>e. bind_p (log LError (''Failed to connect to Confluence: '' @ str_exn e)) (\<lambda>u.
             raise e))"

text \<open>\<^verbatim>\<open>if not self.confluence: self.connect()\<close>, the first statement of every operation.\<close>

definition ensure_connected :: "env \<Rightarrow> connector \<Rightarrow> unit prog" where
  "ensure_connected env c = bind_p get_handle (\<lambda>h. if h then succeed () else connect env c)"

text \<open>The dictionary \<^verbatim>\<open>get_spaces\<close> builds for one space of the answer.\<close>

definition space_record :: "json \<Rightarrow> exn + pydict" where
  "space_record space =
     bind_e (py_get space ''key'' JNull) (\<lambda>key.
     bind_e (py_get space ''name'' JNull) (\<lambda>name.
     bind_e (py_get space ''type'' JNull) (\<lambda>type.
     bind_e (bind_e (bind_e (py_get space ''description'' (JDict []))
                (\<lambda>d. py_get d ''plain'' (JDict [])))
                (\<lambda>p. py_get p ''value'' (JStr []))) (\<lambda>description.
     bind_e (bind_e (py_get space ''_links'' (JDict []))
                (\<lambda>l. py_get l ''webui'' (JStr []))) (\<lambda>page_count.
     Inr [(''key'', key), (''name'', name), (''type'', type),
          (''description'', description), (''page_count'', page_count)])))))"

text \<open>The \<^verbatim>\<open>try\<close> block of \<^verbatim>\<open>get_spaces\<close>, then the operation.\<close>

definition get_spaces_try :: "env \<Rightarrow> connector \<Rightarrow> json \<Rightarrow> pydict list prog" where
  "get_spaces_try env c limit =
     (bind_p (call_api env (GetAllSpaces limit (Some ''description.plain''))) (\<lambda>spaces.
      bind_p (lift (bind_e (py_get spaces ''results'' (JList [])) (\<lambda>rs.
                    bind_e (py_iter rs) (map_e space_record)))) (\<lambda>result.
      bind_p (log LInfo (''Retrieved '' @ str_nat (length result) @ '' spaces'')) (\<lambda>u.
      succeed result))))"

definition get_spaces :: "env \<Rightarrow> connector \<Rightarrow> json \<Rightarrow> pydict list prog" where
  "get_spaces env c limit =
     bind_p (ensure_connected env c) (\<lambda>u.
     try_except (get_spaces_try env c limit)
       (\<lambda>e. bind_p (log LError (''Failed to retrieve spaces: '' @ str_exn e)) (\<lambda>u.
             raise e)))"

text \<open>The dictionary \<^verbatim>\<open>get_pages_from_space\<close> builds for one page.\<close>

definition page_record :: "connector \<Rightarrow> json \<Rightarrow> json \<Rightarrow> exn + pydict" where
  "page_record c space_key page =
     bind_e (py_get page ''id'' JNull) (\<lambda>ident.
     bind_e (py_get page ''title'' JNull) (\<lambda>title.
     bind_e (bind_e (py_get page ''version'' (JDict []))
                (\<lambda>v. py_get v ''number'' (JInt 0))) (\<lambda>version.
     bind_e (bind_e (bind_e (bind_e (py_get page ''body'' (JDict []))
                (\<lambda>b. py_get b ''storage'' (JDict [])))
                (\<lambda>s. py_get s ''value'' (JStr [])))
                (py_slice 500)) (\<lambda>content.
     bind_e (bind_e (bind_e (py_get page ''_links'' (JDict []))
                (\<lambda>l. py_get l ''webui'' (JStr [])))
                (page_url (url c))) (\<lambda>link.
     Inr [(''id'', ident), (''title'', title), (''space'', space_key),
          (''version'', version), (''content'', content), (''url'', link)])))))"

text \<open>The \<^verbatim>\<open>try\<close> block of \<^verbatim>\<open>get_pages_from_space\<close>, then the operation.\<close>

definition get_pages_from_space_try :: "env \<Rightarrow> connector \<Rightarrow> json \<Rightarrow> json \<Rightarrow> pydict list prog" where
  "get_pages_from_space_try env c space_key limit =
     (bind_p (call_api env (GetAllPagesFromSpace space_key limit ''body.storage,version'')) (\<lambda>pages.
      bind_p (lift (bind_e (py_iter pages) (map_e (page_record c space_key)))) (\<lambda>result.
      bind_p (log LInfo (''Retrieved '' @ str_nat (length result) @ '' pages from space: '' @
                 py_str space_key)) (\<lambda>u.
      succeed result))))"

definition get_pages_from_space :: "env \<Rightarrow> connector \<Rightarrow> json \<Rightarrow> json \<Rightarrow> pydict list prog" where
  "get_pages_from_space env c space_key limit =
     bind_p (ensure_connected env c) (\<lambda>u.
     try_except (get_pages_from_space_try env c space_key limit)
       (\<lambda>e. bind_p (log LError (''Failed to retrieve pages from space: '' @ str_exn e)) (\<lambda>u.
             raise e)))"

text \<open>The dictionary \<^verbatim>\<open>search_content\<close> builds for one hit.\<close>

definition search_record :: "connector \<Rightarrow> json \<Rightarrow> exn + pydict" where
  "search_record c item =
     bind_e (bind_e (bind_e (py_get item ''body'' (JDict []))
                (\<lambda>b. py_get b ''storage'' (JDict [])))
                (\<lambda>s. py_get s ''value'' (JStr []))) (\<lambda>content.
     bind_e (snippet content) (\<lambda>text_content.
     bind_e (py_get item ''id'' JNull) (\<lambda>ident.
     bind_e (py_get item ''title'' JNull) (\<lambda>title.
     bind_e (bind_e (py_get item ''content'' (JDict []))
                (\<lambda>x. py_get x ''type'' (JStr []))) (\<lambda>type.
     bind_e (bind_e (py_get item ''space'' (JDict []))
                (\<lambda>x. py_get x ''key'' (JStr []))) (\<lambda>space.
     bind_e (bind_e (py_get item ''space'' (JDict []))
                (\<lambda>x. py_get x ''name'' (JStr []))) (\<lambda>space_name.
     bind_e (bind_e (bind_e (py_get item ''_links'' (JDict []))
                (\<lambda>l. py_get l ''webui'' (JStr [])))
                (page_url (url c))) (\<lambda>link.
     bind_e (bind_e (py_get item ''version'' (JDict []))
                (\<lambda>v. py_get v ''number'' (JInt 0))) (\<lambda>version.
     Inr [(''id'', ident), (''title'', title), (''type'', type), (''space'', space),
          (''space_name'', space_name), (''content'', JStr text_content), (''url'', link),
          (''version'', version)])))))))))"

text \<open>The query text \<^verbatim>\<open>search_content\<close> sends.\<close>

definition cql_query :: "json \<Rightarrow> json \<Rightarrow> string" where
  "cql_query query_text space_key =
     ''text ~ '' @ [CHR 0x22] @ py_str query_text @ [CHR 0x22] @
     (if py_truthy space_key then '' AND space = '' @ py_str space_key else [])"

text \<open>The \<^verbatim>\<open>try\<close> block of \<^verbatim>\<open>search_content\<close>, then the operation.\<close>

definition search_content_try :: "env \<Rightarrow> connector \<Rightarrow> json \<Rightarrow> json \<Rightarrow> json \<Rightarrow> pydict list prog" where
  "search_content_try env c query_text space_key max_results =
     (bind_p (call_api env (Cql (cql_query query_text space_key) max_results
                 ''body.storage,version,space'')) (\<lambda>search_results.
      bind_p (lift (bind_e (py_get search_results ''results'' (JList [])) (\<lambda>rs.
                    bind_e (py_iter rs) (map_e (search_record c))))) (\<lambda>result.
      bind_p (log LInfo (''Search returned '' @ str_nat (length result) @
                 '' results for query: '' @ py_str query_text)) (\<lambda>u.
      succeed result))))"

definition search_content :: "env \<Rightarrow> connector \<Rightarrow> json \<Rightarrow> json \<Rightarrow> json \<Rightarrow> pydict list prog" where
  "search_content env c query_text space_key max_results =
     bind_p (ensure_connected env c) (\<lambda>u.
     try_except (search_content_try env c query_text space_key max_results)
       (\<lambda>e. bind_p (log LError (''Search failed: '' @ str_exn e)) (\<lambda>u.
             raise e)))"

text \<open>
  The \<^verbatim>\<open>try\<close> block of \<^verbatim>\<open>get_page_content\<close>, then the operation;
  \<open>None\<close> is Python's \<^verbatim>\<open>None\<close>.
\<close>

definition get_page_content_try :: "env \<Rightarrow> connector \<Rightarrow> string \<Rightarrow> string option prog" where
  "get_page_content_try env c page_id =
     (bind_p (call_api env (GetPageById page_id ''body.storage,version,space'')) (\<lambda>page.
      if py_truthy page
      then lift (bind_e (bind_e (bind_e (bind_e (py_get page ''body'' (JDict []))
                   (\<lambda>b. py_get b ''storage'' (JDict [])))
                   (\<lambda>s. py_get s ''value'' (JStr [])))
                   re_sub_tags)
                   (\<lambda>text_content. Inr (Some text_content)))
      else succeed None))"

definition get_page_content :: "env \<Rightarrow> connector \<Rightarrow> string \<Rightarrow> string option prog" where
  "get_page_content env c page_id =
     bind_p (ensure_connected env c) (\<lambda>u.
     try_except (get_page_content_try env c page_id)
       (\<lambda>e. bind_p (log LError (''Failed to get page content: '' @ str_exn e)) (\<lambda>u.
             succeed None)))"

text \<open>The \<^verbatim>\<open>try\<close> block of \<^verbatim>\<open>get_page_by_title\<close>, then the operation.\<close>

definition get_page_by_title_try :: "env \<Rightarrow> connector \<Rightarrow> string \<Rightarrow> string \<Rightarrow> pydict option prog" where
  "get_page_by_title_try env c space_key title =
     (bind_p (call_api env (GetPageByTitle space_key title)) (\<lambda>page.
      if py_truthy page
      then lift (bind_e (py_get page ''id'' JNull) (\<lambda>ident.
                 bind_e (py_get page ''title'' JNull) (\<lambda>page_title.
                 bind_e (bind_e (bind_e (py_get page ''_links'' (JDict []))
                            (\<lambda>l. py_get l ''webui'' (JStr [])))
                            (page_url (url c))) (\<lambda>link.
                 Inr (Some [(''id'', ident), (''title'', page_title),
                            (''space'', JStr space_key), (''url'', link)])))))
      else succeed None))"

definition get_page_by_title :: "env \<Rightarrow> connector \<Rightarrow> string \<Rightarrow> string \<Rightarrow> pydict option prog" where
  "get_page_by_title env c space_key title =
     bind_p (ensure_connected env c) (\<lambda>u.
     try_except (get_page_by_title_try env c space_key title)
       (\<lambda>e. bind_p (log LError (''Failed to get page by title: '' @ str_exn e)) (\<lambda>u.
             succeed None)))"

section \<open>The orchestrator (\<^verbatim>\<open>genai_agent.py\<close>)\<close>

text \<open>
  The agent after \<^verbatim>\<open>__init__\<close>: the name of the model and the adapter. The client of
  the language model is the environment. The bullet of the three fixed messages, not a
  character of \<^typ>\<open>char\<close>, is written as the three bytes of its UTF-8 form.
\<close>

record agent =
  model :: string
  confluence :: connector

definition system_prompt :: string where
  "system_prompt =
     ''You are an intelligent Confluence assistant. \<newline>'' @
     ''            When a user asks a question, analyze it and determine:\<newline>'' @
     ''            1. Whether they want to search for something specific\<newline>'' @
     ''            2. Whether they want to see spaces\<newline>'' @
     ''            3. Whether they want to see pages from a specific space\<newline>'' @
     ''            4. What keywords or space names are relevant\<newline>'' @
     ''            \<newline>'' @
     ''            Respond ONLY with a JSON object containing:\<newline>'' @
     ''            {\<newline>'' @ ''                '' @ [CHR 0x22] @ ''action'' @
     [CHR 0x22] @ '': '' @ [CHR 0x22] @ ''search'' @ [CHR 0x22] @ '' | '' @ [CHR 0x22] @
     ''get_pages'' @ [CHR 0x22] @ '' | '' @ [CHR 0x22] @ ''get_spaces'' @ [CHR 0x22] @
     '' | '' @ [CHR 0x22] @ ''general'' @ [CHR 0x22] @ '',\<newline>'' @ ''                '' @
     [CHR 0x22] @ ''space_key'' @ [CHR 0x22] @ '': '' @ [CHR 0x22] @
     ''key of space if applicable'' @ [CHR 0x22] @ '',\<newline>'' @ ''                '' @
     [CHR 0x22] @ ''search_query'' @ [CHR 0x22] @ '': '' @ [CHR 0x22] @
     ''search keywords if applicable'' @ [CHR 0x22] @ '',\<newline>'' @ ''                '' @
     [CHR 0x22] @ ''max_results'' @ [CHR 0x22] @ '': number\<newline>'' @ ''            }''"

definition synthesis_system_prompt :: string where
  "synthesis_system_prompt =
     ''You are a helpful Confluence assistant. Provide clear, concise answers based on the data provided.''"

definition response_prompt :: "string \<Rightarrow> string \<Rightarrow> string" where
  "response_prompt user_query confluence_data =
     ''Based on the following Confluence data and the user'' @ [CHR 0x27] @
     ''s question, \<newline>'' @
     ''            provide a clear, helpful answer. If the data doesn'' @ [CHR 0x27] @
     ''t fully answer the question, \<newline>'' @
     ''            indicate what information is available and suggest next steps.\<newline>'' @
     ''\<newline>'' @ ''            User Question: '' @
     user_query @
     ''\<newline>'' @ ''\<newline>'' @ ''            Confluence Data:\<newline>'' @
     ''            '' @
     confluence_data @
     ''\<newline>'' @ ''\<newline>'' @
     ''            Provide a natural, conversational response that directly addresses the user'' @
     [CHR 0x27] @ ''s question.''"

definition billing_message :: string where
  "billing_message =
     ''I encountered a quota/billing issue with the OpenAI API.\<newline>'' @ ''\<newline>'' @
     ''This usually means:\<newline>'' @
     ''1. Your free trial credits have been used up\<newline>'' @
     ''2. You need to add a payment method\<newline>'' @ ''3. You'' @ [CHR 0x27] @
     ''ve reached your spending limit\<newline>'' @ ''4. You'' @ [CHR 0x27] @
     ''re making requests too quickly (rate limit)\<newline>'' @ ''\<newline>'' @
     ''To fix this:\<newline>'' @ [CHR 0xE2, CHR 0x80, CHR 0xA2] @
     '' Go to https://platform.openai.com/account/billing and add a payment method\<newline>'' @
     [CHR 0xE2, CHR 0x80, CHR 0xA2] @
     '' Check your usage at https://platform.openai.com/account/usage\<newline>'' @
     [CHR 0xE2, CHR 0x80, CHR 0xA2] @ '' Increase spending limits if needed\<newline>'' @
     [CHR 0xE2, CHR 0x80, CHR 0xA2] @ '' Wait a few minutes if it'' @ [CHR 0x27] @
     ''s a rate limit issue\<newline>'' @ ''\<newline>'' @
     ''See FIX_OPENAI_QUOTA.md for detailed instructions.''"

definition auth_message :: string where
  "auth_message =
     ''I encountered an authentication error with the OpenAI API.\<newline>'' @
     ''\<newline>'' @ ''Please check:\<newline>'' @ [CHR 0xE2, CHR 0x80, CHR 0xA2] @
     '' Your OPENAI_API_KEY in the .env file is correct\<newline>'' @
     [CHR 0xE2, CHR 0x80, CHR 0xA2] @ '' The API key hasn'' @ [CHR 0x27] @
     ''t been revoked\<newline>'' @ [CHR 0xE2, CHR 0x80, CHR 0xA2] @ '' You'' @ [CHR 0x27] @
     ''re using a valid API key from https://platform.openai.com/api-keys''"

definition model_message :: string where
  "model_message =
     ''I encountered an error with the AI model.\<newline>'' @ ''\<newline>'' @
     ''Please check:\<newline>'' @ [CHR 0xE2, CHR 0x80, CHR 0xA2] @
     '' Your OPENAI_MODEL in .env is a valid model name (e.g., gpt-3.5-turbo)\<newline>'' @
     [CHR 0xE2, CHR 0x80, CHR 0xA2] @ '' You have access to the specified model\<newline>'' @
     [CHR 0xE2, CHR 0x80, CHR 0xA2] @ '' See FIX_MODEL_ERROR.md for model options''"

text \<open>\<^verbatim>\<open>response.choices[0].message.content\<close>.\<close>

definition choice_content :: "string option list \<Rightarrow> exn + string option" where
  "choice_content choices =
     (case choices of
        [] \<Rightarrow> Inl (Exception ''list index out of range'')
      | content # others \<Rightarrow> Inr content)"

text \<open>\<^verbatim>\<open>json.loads(content)\<close>, which refuses \<^verbatim>\<open>None\<close>.\<close>

definition loads :: "env \<Rightarrow> string option \<Rightarrow> exn + json" where
  "loads env content =
     (case content of
        None \<Rightarrow> Inl (Exception ''the JSON object must be str, bytes or bytearray, not NoneType'')
      | Some s \<Rightarrow> json_loads env s)"

text \<open>Step 1 of \<^verbatim>\<open>query\<close>: the first call of the language model, and its answer parsed.\<close>

definition classifier_request :: "agent \<Rightarrow> string \<Rightarrow> chat_request" where
  "classifier_request a user_query =
     \<lparr>req_model = model a,
      messages = [(''system'', system_prompt), (''user'', user_query)],
      temperature = 1\<rparr>"

definition classify :: "env \<Rightarrow> agent \<Rightarrow> string \<Rightarrow> json prog" where
  "classify env a user_query =
     bind_p (call_chat env (classifier_request a user_query)) (\<lambda>analysis_response.
     lift (bind_e (choice_content analysis_response) (loads env)))"

text \<open>
  The loop of the branch without a space key:
  \<^verbatim>\<open>confluence_data += f"- {space['name']} (Key: {space['key']})\n"\<close>.
\<close>

fun space_lines :: "pydict list \<Rightarrow> string \<Rightarrow> exn + string" where
  "space_lines [] confluence_data = Inr confluence_data"
| "space_lines (space # rest) confluence_data =
     bind_e (dict_item space ''name'') (\<lambda>name.
     bind_e (dict_item space ''key'') (\<lambda>key.
     space_lines rest
       (confluence_data @ ''- '' @ py_str name @ '' (Key: '' @ py_str key @ '')\<newline>'')))"

definition opt_str :: "string option \<Rightarrow> json" where
  "opt_str v = (case v of None \<Rightarrow> JNull | Some s \<Rightarrow> JStr s)"

text \<open>Step 2 of \<^verbatim>\<open>query\<close>: the data fetched for the decision, as one text.\<close>

definition dispatch :: "env \<Rightarrow> agent \<Rightarrow> string \<Rightarrow> json \<Rightarrow> string prog" where
  "dispatch env a user_query analysis =
     bind_p (lift (py_get analysis ''action'' (JStr ''general''))) (\<lambda>action.
     if action = JStr ''get_spaces'' then
       bind_p (lift (py_get analysis ''max_results'' (JInt 100))) (\<lambda>limit.
       bind_p (get_spaces env (confluence a) limit) (\<lambda>spaces.
       lift (format_spaces spaces)))
     else if action = JStr ''get_pages'' then
       bind_p (lift (py_get analysis ''space_key'' (opt_str (default_space (confluence a))))) (\<lambda>space_key.
       if py_truthy space_key then
         bind_p (lift (py_get analysis ''max_results'' (JInt 50))) (\<lambda>limit.
         bind_p (get_pages_from_space env (confluence a) space_key limit) (\<lambda>pages.
         lift (format_pages pages space_key)))
       else
         bind_p (get_spaces env (confluence a) (JInt 100)) (\<lambda>spaces.
         lift (space_lines spaces ''Space key not specified. Available spaces:\<newline>'')))
     else if action = JStr ''search'' then
       bind_p (lift (py_get analysis ''search_query'' (JStr user_query))) (\<lambda>search_query.
       bind_p (lift (py_get analysis ''space_key'' JNull)) (\<lambda>space_key.
       bind_p (lift (py_get analysis ''max_results'' (JInt 20))) (\<lambda>max_results.
       bind_p (search_content env (confluence a) search_query space_key max_results) (\<lambda>results.
       lift (format_search_results results)))))
     else
       bind_p (search_content env (confluence a) (JStr user_query) JNull (JInt 20)) (\<lambda>results.
       lift (format_search_results results)))"

text \<open>Step 3 of \<^verbatim>\<open>query\<close>: the second call of the language model.\<close>

definition synthesis_request :: "agent \<Rightarrow> string \<Rightarrow> string \<Rightarrow> chat_request" where
  "synthesis_request a user_query confluence_data =
     \<lparr>req_model = model a,
      messages = [(''system'', synthesis_system_prompt),
                  (''user'', response_prompt user_query confluence_data)],
      temperature = 7\<rparr>"

definition synthesize :: "env \<Rightarrow> agent \<Rightarrow> string \<Rightarrow> string \<Rightarrow> string option prog" where
  "synthesize env a user_query confluence_data =
     bind_p (call_chat env (synthesis_request a user_query confluence_data)) (\<lambda>response.
     bind_p (lift (choice_content response)) (\<lambda>answer.
     bind_p (log LInfo (''Generated response for query: '' @ take 50 user_query @ ''...'')) (\<lambda>u.
     succeed answer)))"

text \<open>Steps 1 and 2, then the whole \<^verbatim>\<open>try\<close> block.\<close>

definition gather :: "env \<Rightarrow> agent \<Rightarrow> string \<Rightarrow> string prog" where
  "gather env a user_query = bind_p (classify env a user_query) (dispatch env a user_query)"

definition query_body :: "env \<Rightarrow> agent \<Rightarrow> string \<Rightarrow> string option prog" where
  "query_body env a user_query = bind_p (gather env a user_query) (synthesize env a user_query)"

text \<open>The message the \<^verbatim>\<open>except\<close> block returns for the text of the exception.\<close>

definition error_answer :: "string \<Rightarrow> string" where
  "error_answer error_msg =
     (if py_in ''429'' error_msg \<or> py_in ''quota'' (lower error_msg) \<or>
         py_in ''insufficient_quota'' (lower error_msg)
      then billing_message
      else if py_in ''401'' error_msg \<or> py_in ''unauthorized'' (lower error_msg)
      then auth_message
      else if py_in ''404'' error_msg \<or> py_in ''model'' (lower error_msg)
      then model_message
      else ''I encountered an error while processing your query: '' @ error_msg)"

definition query :: "env \<Rightarrow> agent \<Rightarrow> string \<Rightarrow> string option prog" where
  "query env a user_query =
     try_except (query_body env a user_query)
       (\<lambda>e. bind_p (log LError (''Error processing query: '' @ str_exn e)) (\<lambda>u.
             succeed (Some (error_answer (str_exn e)))))"

section \<open>Properties of the text operations\<close>

lemma starts_with_iff: "starts_with p s \<longleftrightarrow> (\<exists>q. s = p @ q)"
  by (induction p s rule: starts_with.induct) auto

lemma py_in_iff: "py_in sub s \<longleftrightarrow> (\<exists>p q. s = p @ sub @ q)"
proof (induction s)
  case Nil
  then show ?case by auto
next
  case (Cons c cs)
  show ?case
  proof
    assume "py_in sub (c # cs)"
    then consider "starts_with sub (c # cs)" | "py_in sub cs" by auto
    then show "\<exists>p q. c # cs = p @ sub @ q"
    proof cases
      case 1
      then obtain q where "c # cs = sub @ q" by (auto simp: starts_with_iff)
      then have "c # cs = [] @ sub @ q" by simp
      then show ?thesis by blast
    next
      case 2
      then obtain p q where "cs = p @ sub @ q" using Cons.IH by auto
      then have "c # cs = (c # p) @ sub @ q" by simp
      then show ?thesis by blast
    qed
  next
    assume "\<exists>p q. c # cs = p @ sub @ q"
    then obtain p q where pq: "c # cs = p @ sub @ q" by blast
    show "py_in sub (c # cs)"
    proof (cases p)
      case Nil
      then have "starts_with sub (c # cs)" using pq by (auto simp: starts_with_iff)
      then show ?thesis by simp
    next
      case (Cons d ds)
      then have "cs = ds @ sub @ q" using pq by simp
      then have "py_in sub cs" using Cons.IH by blast
      then show ?thesis by simp
    qed
  qed
qed

lemma lower_append: "lower (xs @ ys) = lower xs @ lower ys"
  by (simp add: lower_def)

lemma lower_insufficient_quota: "lower ''insufficient_quota'' = ''insufficient_quota''"
  by (simp add: lower_def lower_char_def)

lemma insufficient_quota_lower:
  assumes "py_in ''insufficient_quota'' m"
  shows "py_in ''insufficient_quota'' (lower m)"
proof -
  from assms obtain p q where "m = p @ ''insufficient_quota'' @ q"
    unfolding py_in_iff by blast
  then have "lower m = lower p @ ''insufficient_quota'' @ lower q"
    by (simp only: lower_append lower_insufficient_quota)
  then show ?thesis unfolding py_in_iff by blast
qed

subsection \<open>The url of a page\<close>

lemma rstrip_slash_snoc: "rstrip_slash (b @ ''/'') = rstrip_slash b"
  by (simp add: rstrip_slash_def)

text \<open>The text ends with a slash.\<close>

definition ends_with_slash :: "string \<Rightarrow> bool" where
  "ends_with_slash b = (case rev b of [] \<Rightarrow> False | c # cs \<Rightarrow> c = CHR ''/'')"

lemma rstrip_slash_replicate:
  assumes "\<not> ends_with_slash base"
  shows "rstrip_slash (base @ replicate n CHR ''/'') = base"
proof -
  have "dropWhile (\<lambda>c. c = CHR ''/'') (replicate n CHR ''/'' @ rev base) =
        dropWhile (\<lambda>c. c = CHR ''/'') (rev base)"
    by (rule dropWhile_append2) simp
  moreover have "dropWhile (\<lambda>c. c = CHR ''/'') (rev base) = rev base"
    using assms by (cases "rev base") (simp_all add: ends_with_slash_def)
  ultimately show ?thesis by (simp add: rstrip_slash_def)
qed

text \<open>
  Claim C8. The url of a page does not depend on a trailing slash of the configured
  base url: the base with one more slash at its end and the base itself give the same
  text with every web link. That text is the base without its trailing slashes
  followed by the link: a base that does not end with a slash, written with any number
  of slashes after it, gives that base followed by the link.
\<close>

theorem page_url_trailing_slash:
  "page_url (base @ ''/'') (JStr link) = page_url base (JStr link) \<and>
   (\<not> ends_with_slash base \<longrightarrow>
      page_url (base @ replicate n CHR ''/'') (JStr link) = Inr (JStr (base @ link)))"
  by (simp add: page_url_def rstrip_slash_snoc rstrip_slash_replicate)

text \<open>The example of the specification, and the same base with three slashes.\<close>

theorem page_url_trailing_slash_witness:
  "\<not> ends_with_slash ''https://x.atlassian.net/wiki'' \<and>
   page_url ''https://x.atlassian.net/wiki/'' (JStr ''/spaces/KEY/pages/1'') =
     Inr (JStr ''https://x.atlassian.net/wiki/spaces/KEY/pages/1'') \<and>
   page_url ''https://x.atlassian.net/wiki'' (JStr ''/spaces/KEY/pages/1'') =
     Inr (JStr ''https://x.atlassian.net/wiki/spaces/KEY/pages/1'') \<and>
   page_url ''https://x.atlassian.net/wiki///'' (JStr ''/spaces/KEY/pages/1'') =
     Inr (JStr ''https://x.atlassian.net/wiki/spaces/KEY/pages/1'')"
proof -
  have e: "\<not> ends_with_slash ''https://x.atlassian.net/wiki''"
    by (simp add: ends_with_slash_def)
  note t = page_url_trailing_slash [where base = "''https://x.atlassian.net/wiki''"
      and link = "''/spaces/KEY/pages/1''", THEN conjunct2, rule_format, OF e]
  from t [where n = 1] have 1: "page_url ''https://x.atlassian.net/wiki/'' (JStr ''/spaces/KEY/pages/1'') =
     Inr (JStr ''https://x.atlassian.net/wiki/spaces/KEY/pages/1'')" by simp
  from t [where n = 0] have 0: "page_url ''https://x.atlassian.net/wiki'' (JStr ''/spaces/KEY/pages/1'') =
     Inr (JStr ''https://x.atlassian.net/wiki/spaces/KEY/pages/1'')" by simp
  from t [where n = 3] have 3: "page_url ''https://x.atlassian.net/wiki///'' (JStr ''/spaces/KEY/pages/1'') =
     Inr (JStr ''https://x.atlassian.net/wiki/spaces/KEY/pages/1'')"
    by (simp add: numeral_3_eq_3)
  from e 1 0 3 show ?thesis by (intro conjI)
qed

subsection \<open>The snippet of a search result\<close>

lemma find_close_suffix: "find_close s = Some r \<Longrightarrow> \<exists>p. s = p @ r"
proof (induction s)
  case Nil then show ?case by simp
next
  case (Cons c cs)
  show ?case
  proof (cases "c = CHR ''>''")
    case True
    with Cons.prems have "c # cs = [c] @ r" by simp
    then show ?thesis by blast
  next
    case False
    with Cons.prems have "find_close cs = Some r" by (auto split: if_splits)
    then obtain p where "cs = p @ r" using Cons.IH by blast
    then have "c # cs = (c # p) @ r" by simp
    then show ?thesis by blast
  qed
qed

lemma match_tag_suffix: "match_tag s = Some r \<Longrightarrow> \<exists>p. s = p @ r"
proof (cases s rule: match_tag.cases)
  case (1 c d cs)
  assume m: "match_tag s = Some r"
  with 1 have "find_close cs = Some r" by (auto split: if_splits)
  then obtain p where "cs = p @ r" using find_close_suffix by blast
  with 1 have "s = (c # d # p) @ r" by simp
  then show ?thesis by blast
qed auto

lemma well_tagged_suffix: "well_tagged (p @ r) \<Longrightarrow> well_tagged r"
  by (induction p) auto

lemma strip_tags_no_open: "well_tagged s \<Longrightarrow> CHR ''<'' \<notin> set (strip_tags s)"
proof (induction s rule: strip_tags.induct)
  case 1
  then show ?case by simp
next
  case (2 c cs)
  show ?case
  proof (cases "match_tag (c # cs)")
    case None
    with "2.prems" have "c \<noteq> CHR ''<''" and wt: "well_tagged cs" by (auto split: if_splits)
    moreover have "CHR ''<'' \<notin> set (strip_tags cs)" using "2.IH"(1) None wt by blast
    ultimately show ?thesis using None by simp
  next
    case (Some rest)
    then obtain p where "c # cs = p @ rest" using match_tag_suffix by blast
    with "2.prems" have "well_tagged rest" using well_tagged_suffix by metis
    then have "CHR ''<'' \<notin> set (strip_tags rest)" using "2.IH"(2) Some by blast
    then show ?thesis using Some by simp
  qed
qed

lemma has_tag_open: "has_tag s \<Longrightarrow> CHR ''<'' \<in> set s"
proof (induction s)
  case Nil then show ?case by simp
next
  case (Cons c cs)
  show ?case
  proof (cases "match_tag (c # cs)")
    case None
    with Cons show ?thesis by simp
  next
    case (Some r)
    then have "c = CHR ''<''" by (cases cs) (auto split: if_splits)
    then show ?thesis by simp
  qed
qed

text \<open>
  Claim C4, as the code has it. The snippet is the first 300 characters of the body
  after one pass of the tag-stripping rule, so it is at most 300 characters long. When
  every \<^verbatim>\<open><\<close> of the body opens a tag, the snippet holds no \<^verbatim>\<open><\<close> at all, and
  so no tag.
\<close>

theorem snippet_stripped_then_cut:
  "\<exists>t. snippet (JStr body) = Inr t \<and> t = take 300 (strip_tags body) \<and> length t \<le> 300 \<and>
       (well_tagged body \<longrightarrow> CHR ''<'' \<notin> set t \<and> \<not> has_tag t)"
proof -
  let ?t = "take 300 (strip_tags body)"
  have a: "snippet (JStr body) = Inr ?t" by (simp add: snippet_def)
  have b: "length ?t \<le> 300" by simp
  have c: "well_tagged body \<longrightarrow> CHR ''<'' \<notin> set ?t \<and> \<not> has_tag ?t"
  proof
    assume "well_tagged body"
    then have "CHR ''<'' \<notin> set (strip_tags body)" by (rule strip_tags_no_open)
    then have "CHR ''<'' \<notin> set ?t" by (meson in_set_takeD)
    then show "CHR ''<'' \<notin> set ?t \<and> \<not> has_tag ?t" using has_tag_open by blast
  qed
  from a b c show ?thesis by blast
qed

theorem snippet_stripped_then_cut_witness:
  "well_tagged ''<p>Hello <b>world</b></p>'' \<and>
   snippet (JStr ''<p>Hello <b>world</b></p>'') = Inr ''Hello world'' \<and>
   \<not> has_tag ''Hello world''"
  using snippet_stripped_then_cut [of "''<p>Hello <b>world</b></p>''"]
  by (simp add: snippet_def)

text \<open>
  Claim C4 as stated fails: the pass is made once, and a tag inside an unfinished tag
  leaves a tag behind.
\<close>

theorem snippet_keeps_a_tag:
  "has_tag ''<a<b>>'' \<and> snippet (JStr ''<a<b>>'') = Inr ''<a>'' \<and> has_tag ''<a>''"
  by (simp add: snippet_def)

section \<open>Properties of the record formatters\<close>

text \<open>
  A formatter cuts the preview of a record with a slice, which a text and a list have.
  A record is fit for a preview at a field when the field is missing or falsy, or holds
  a text or a list: the content and the description the adapter writes are texts.
\<close>

fun sliceable :: "json \<Rightarrow> bool" where
  "sliceable (JStr s) = True"
| "sliceable (JList xs) = True"
| "sliceable v = False"

definition preview_ok :: "string \<Rightarrow> pydict \<Rightarrow> bool" where
  "preview_ok field r =
     (py_truthy (dict_get r field JNull) \<longrightarrow> sliceable (dict_get r field JNull))"

text \<open>
  The output \<open>out\<close> is the heading followed by one block for each record, in the order
  of the records: the block at position \<open>k\<close>, counted from 0, is what the body of the loop
  writes for the record at position \<open>k\<close> with the number \<open>k + 1\<close>, and it starts with a
  line break, that number in decimal, a full stop and a space.
\<close>

definition numbered :: "(nat \<Rightarrow> pydict \<Rightarrow> exn + string) \<Rightarrow> pydict list \<Rightarrow> string \<Rightarrow> exn + string \<Rightarrow> bool" where
  "numbered entry records heading out =
     (\<exists>blocks. length blocks = length records \<and> out = Inr (heading @ concat blocks) \<and>
        (\<forall>k<length records.
           entry (Suc k) (records ! k) = Inr (blocks ! k) \<and>
           starts_with (''\<newline>'' @ str_nat (Suc k) @ ''. '') (blocks ! k)))"

text \<open>
  Reading a decimal numeral back: the value of a text of digits, and nothing for a text
  that holds another character.
\<close>

definition digit_value :: "char \<Rightarrow> nat option" where
  "digit_value c = map_of (zip ''0123456789'' [0, 1, 2, 3, 4, 5, 6, 7, 8, 9]) c"

fun decimal_value :: "nat \<Rightarrow> string \<Rightarrow> nat option" where
  "decimal_value acc [] = Some acc"
| "decimal_value acc (c # cs) =
     (case digit_value c of None \<Rightarrow> None | Some d \<Rightarrow> decimal_value (10 * acc + d) cs)"

text \<open>
  A space as the wiki may answer it, with a number where the plain description is
  expected, and the record \<^verbatim>\<open>get_spaces\<close> builds for it.
\<close>

definition odd_space_answer :: json where
  "odd_space_answer =
     JDict [(''key'', JStr ''ENG''), (''name'', JStr ''Engineering''), (''type'', JStr ''global''),
            (''description'', JDict [(''plain'', JDict [(''value'', JInt 5)])]),
            (''_links'', JDict [(''webui'', JStr ''/spaces/ENG'')])]"

definition odd_space :: pydict where
  "odd_space =
     [(''key'', JStr ''ENG''), (''name'', JStr ''Engineering''), (''type'', JStr ''global''),
      (''description'', JInt 5), (''page_count'', JStr ''/spaces/ENG'')]"

definition two_results :: "pydict list" where
  "two_results =
     [[(''title'', JStr ''Deploy guide''), (''space_name'', JStr ''Engineering''),
       (''type'', JStr ''page''), (''content'', JStr ''Run the script.''),
       (''url'', JStr ''https://x.atlassian.net/wiki/spaces/ENG/pages/1'')],
      [(''title'', JStr ''Rollback''), (''space'', JStr ''OPS''), (''content'', JStr [])]]"

definition two_spaces :: "pydict list" where
  "two_spaces =
     [[(''key'', JStr ''ENG''), (''name'', JStr ''Engineering''), (''type'', JStr ''global''),
       (''description'', JStr ''All of engineering'')],
      [(''key'', JStr ''OPS''), (''name'', JStr ''Operations''), (''type'', JStr ''global''),
       (''description'', JStr [])]]"


lemma starts_with_append: "starts_with p (p @ q)"
  by (simp add: starts_with_iff)

lemma dict_get_truthy: "py_truthy (dict_get r k JNull) \<Longrightarrow> dict_get r k d = dict_get r k JNull"
  by (auto simp: dict_get_def split: option.splits)

lemma py_slice_sliceable: "sliceable v \<Longrightarrow> \<exists>p. py_slice n v = Inr p"
  by (cases v) auto

lemma search_entry_ok:
  assumes "preview_ok ''content'' r"
  shows "\<exists>b. search_entry i r = Inr b \<and> starts_with (''\<newline>'' @ str_nat i @ ''. '') b"
proof (cases "py_truthy (dict_get r ''content'' JNull)")
  case False
  then show ?thesis
    by (simp add: search_entry_def Let_def starts_with_iff)
next
  case True
  with assms have "sliceable (dict_get r ''content'' JNull)" by (simp add: preview_ok_def)
  then obtain p where "py_slice 200 (dict_get r ''content'' JNull) = Inr p"
    using py_slice_sliceable by blast
  with True show ?thesis
    by (simp add: search_entry_def Let_def starts_with_iff dict_get_truthy [OF True, of "JStr []"])
qed

lemma page_entry_ok:
  assumes "preview_ok ''content'' r"
  shows "\<exists>b. page_entry i r = Inr b \<and> starts_with (''\<newline>'' @ str_nat i @ ''. '') b"
proof (cases "py_truthy (dict_get r ''content'' JNull)")
  case False
  then show ?thesis
    by (simp add: page_entry_def Let_def starts_with_iff)
next
  case True
  with assms have "sliceable (dict_get r ''content'' JNull)" by (simp add: preview_ok_def)
  then obtain p where "py_slice 150 (dict_get r ''content'' JNull) = Inr p"
    using py_slice_sliceable by blast
  with True show ?thesis
    by (simp add: page_entry_def Let_def starts_with_iff dict_get_truthy [OF True, of "JStr []"])
qed

lemma space_entry_ok:
  assumes "preview_ok ''description'' r"
  shows "\<exists>b. space_entry i r = Inr b \<and> starts_with (''\<newline>'' @ str_nat i @ ''. '') b"
proof (cases "py_truthy (dict_get r ''description'' JNull)")
  case False
  then show ?thesis
    by (simp add: space_entry_def Let_def starts_with_iff)
next
  case True
  with assms have "sliceable (dict_get r ''description'' JNull)" by (simp add: preview_ok_def)
  then obtain p where "py_slice 100 (dict_get r ''description'' JNull) = Inr p"
    using py_slice_sliceable by blast
  with True show ?thesis
    by (simp add: space_entry_def Let_def starts_with_iff dict_get_truthy [OF True, of "JStr []"])
qed

lemma format_loop_blocks:
  assumes "\<And>j r. r \<in> set rs \<Longrightarrow> \<exists>b. entry j r = Inr b \<and> P j b"
  shows "\<exists>blocks. length blocks = length rs \<and>
           format_loop entry i rs acc = Inr (acc @ concat blocks) \<and>
           (\<forall>k<length rs. entry (i + k) (rs ! k) = Inr (blocks ! k) \<and> P (i + k) (blocks ! k))"
  using assms
proof (induction rs arbitrary: i acc)
  case Nil
  then show ?case by simp
next
  case (Cons r rs)
  from Cons.prems [of r i] obtain b where b: "entry i r = Inr b" "P i b" by auto
  have "\<exists>blocks. length blocks = length rs \<and>
           format_loop entry (Suc i) rs (acc @ b) = Inr ((acc @ b) @ concat blocks) \<and>
           (\<forall>k<length rs. entry (Suc i + k) (rs ! k) = Inr (blocks ! k) \<and> P (Suc i + k) (blocks ! k))"
    by (rule Cons.IH) (simp add: Cons.prems)
  then obtain blocks where bl: "length blocks = length rs"
    "format_loop entry (Suc i) rs (acc @ b) = Inr ((acc @ b) @ concat blocks)"
    "\<forall>k<length rs. entry (Suc i + k) (rs ! k) = Inr (blocks ! k) \<and> P (Suc i + k) (blocks ! k)"
    by blast
  have "\<forall>k<length (r # rs). entry (i + k) ((r # rs) ! k) = Inr ((b # blocks) ! k) \<and>
          P (i + k) ((b # blocks) ! k)"
  proof (intro allI impI)
    fix k assume "k < length (r # rs)"
    then show "entry (i + k) ((r # rs) ! k) = Inr ((b # blocks) ! k) \<and> P (i + k) ((b # blocks) ! k)"
      using b bl(3) by (cases k) auto
  qed
  moreover have "format_loop entry i (r # rs) acc = Inr (acc @ concat (b # blocks))"
    using b bl(2) by simp
  moreover have "length (b # blocks) = length (r # rs)" using bl(1) by simp
  ultimately show ?case by blast
qed

lemma format_loop_numbered:
  assumes "\<And>j r. r \<in> set rs \<Longrightarrow>
             \<exists>b. entry j r = Inr b \<and> starts_with (''\<newline>'' @ str_nat j @ ''. '') b"
  shows "numbered entry rs heading (format_loop entry (Suc 0) rs heading)"
proof -
  from format_loop_blocks [of rs entry "\<lambda>j b. starts_with (''\<newline>'' @ str_nat j @ ''. '') b" "Suc 0" heading,
      OF assms]
  show ?thesis unfolding numbered_def by simp
qed

lemma digit_value_digit_char: "d < 10 \<Longrightarrow> digit_value (digit_char d) = Some d"
proof -
  assume "d < 10"
  then have "d \<in> {0, 1, 2, 3, 4, 5, 6, 7, 8, 9}" by auto
  then show ?thesis by (auto simp: digit_char_def digit_value_def)
qed

lemma decimal_value_append:
  "decimal_value acc (s @ t) =
     (case decimal_value acc s of None \<Rightarrow> None | Some v \<Rightarrow> decimal_value v t)"
  by (induction s arbitrary: acc) (auto split: option.splits)

lemma decimal_value_str_nat: "decimal_value 0 (str_nat n) = Some n"
proof (induction n rule: str_nat.induct)
  case (1 n)
  show ?case
  proof (cases "n < 10")
    case True
    then show ?thesis by (simp add: digit_value_digit_char)
  next
    case False
    then have "decimal_value 0 (str_nat (n div 10)) = Some (n div 10)" using 1 by simp
    moreover have "digit_value (digit_char (n mod 10)) = Some (n mod 10)"
      by (rule digit_value_digit_char) simp
    ultimately have "decimal_value 0 (str_nat (n div 10) @ [digit_char (n mod 10)]) = Some n"
      by (simp add: decimal_value_append)
    with False show ?thesis by (subst str_nat.simps) simp
  qed
qed

lemma py_slice_not_sliceable: "\<not> sliceable v \<Longrightarrow> \<exists>e. py_slice n v = Inl e"
  by (cases v) auto

lemma not_preview_ok:
  assumes "\<not> preview_ok field r"
  shows "py_truthy (dict_get r field JNull) \<and>
         (\<exists>e. py_slice n (dict_get r field (JStr [])) = Inl e)"
proof -
  from assms have t: "py_truthy (dict_get r field JNull)"
    and s: "\<not> sliceable (dict_get r field JNull)" by (auto simp: preview_ok_def)
  from t have "dict_get r field (JStr []) = dict_get r field JNull" by (rule dict_get_truthy)
  with s t py_slice_not_sliceable [of "dict_get r field JNull" n] show ?thesis by simp
qed

lemma search_entry_raises:
  assumes "\<not> preview_ok ''content'' r"
  shows "isl (search_entry i r)"
proof -
  from not_preview_ok [OF assms, of 200] obtain e
    where t: "py_truthy (dict_get r ''content'' JNull)"
      and s: "py_slice 200 (dict_get r ''content'' (JStr [])) = Inl e"
    by blast
  then show ?thesis by (simp add: search_entry_def Let_def)
qed

lemma page_entry_raises:
  assumes "\<not> preview_ok ''content'' r"
  shows "isl (page_entry i r)"
proof -
  from not_preview_ok [OF assms, of 150] obtain e
    where t: "py_truthy (dict_get r ''content'' JNull)"
      and s: "py_slice 150 (dict_get r ''content'' (JStr [])) = Inl e"
    by blast
  then show ?thesis by (simp add: page_entry_def Let_def)
qed

lemma space_entry_raises:
  assumes "\<not> preview_ok ''description'' r"
  shows "isl (space_entry i r)"
proof -
  from not_preview_ok [OF assms, of 100] obtain e
    where t: "py_truthy (dict_get r ''description'' JNull)"
      and s: "py_slice 100 (dict_get r ''description'' (JStr [])) = Inl e"
    by blast
  then show ?thesis by (simp add: space_entry_def Let_def)
qed

lemma format_loop_raises:
  assumes "r \<in> set rs" and "\<And>j. isl (entry j r)"
  shows "isl (format_loop entry i rs acc)"
  using assms(1)
proof (induction rs arbitrary: i acc)
  case Nil
  then show ?case by simp
next
  case (Cons x xs)
  show ?case
  proof (cases "entry i x")
    case (Inl e)
    then show ?thesis by simp
  next
    case (Inr b)
    with assms(2) [of i] have "x \<noteq> r" by auto
    with Cons.prems have "r \<in> set xs" by simp
    then have "isl (format_loop entry (Suc i) xs (acc @ b))" by (rule Cons.IH)
    with Inr show ?thesis by simp
  qed
qed

lemma formatter_raises:
  assumes "\<not> list_all (preview_ok field) rs"
    and "\<And>r j. \<not> preview_ok field r \<Longrightarrow> isl (entry j r)"
  shows "rs \<noteq> [] \<and> isl (format_loop entry i rs acc)"
proof -
  from assms(1) obtain r where r: "r \<in> set rs" "\<not> preview_ok field r"
    by (auto simp: list_all_iff)
  then have "isl (format_loop entry i rs acc)"
    by (intro format_loop_raises [of r] assms(2)) auto
  with r(1) show ?thesis by auto
qed

text \<open>
  Claim C7, as the code has it. On a list of records that is not empty and whose
  records are all fit for a preview, each formatter writes its heading and then exactly
  one numbered entry for each record, numbered from 1 in decimal, in the order of the
  records. On a list with a record that is not fit for a preview, one whose content
  (for a space: description) is truthy and neither a text nor a list, the formatter
  raises and writes nothing.
\<close>

theorem formatters_number_every_record:
  "(results \<noteq> [] \<and> list_all (preview_ok ''content'') results \<longrightarrow>
      numbered search_entry results ''Search Results:\<newline>'' (format_search_results results)) \<and>
   (pages \<noteq> [] \<and> list_all (preview_ok ''content'') pages \<longrightarrow>
      numbered page_entry pages
        (''Pages from space '' @ [CHR 0x27] @ py_str space_key @ [CHR 0x27] @ '':\<newline>'')
        (format_pages pages space_key)) \<and>
   (spaces \<noteq> [] \<and> list_all (preview_ok ''description'') spaces \<longrightarrow>
      numbered space_entry spaces ''Available Confluence Spaces:\<newline>'' (format_spaces spaces)) \<and>
   (\<not> list_all (preview_ok ''content'') results \<longrightarrow> isl (format_search_results results)) \<and>
   (\<not> list_all (preview_ok ''content'') pages \<longrightarrow> isl (format_pages pages space_key)) \<and>
   (\<not> list_all (preview_ok ''description'') spaces \<longrightarrow> isl (format_spaces spaces)) \<and>
   decimal_value 0 (str_nat n) = Some n"
proof (intro conjI impI)
  let ?h = "''Search Results:\<newline>''"
  assume a: "results \<noteq> [] \<and> list_all (preview_ok ''content'') results"
  then have "\<And>r. r \<in> set results \<Longrightarrow> preview_ok ''content'' r"
    by (simp add: list_all_iff)
  then have "numbered search_entry results ?h (format_loop search_entry (Suc 0) results ?h)"
    by (intro format_loop_numbered search_entry_ok)
  moreover have "format_search_results results = format_loop search_entry (Suc 0) results ?h"
    using a by (simp only: format_search_results_def One_nat_def if_False)
  ultimately show "numbered search_entry results ?h (format_search_results results)"
    by (simp only:)
next
  let ?h = "''Pages from space '' @ [CHR 0x27] @ py_str space_key @ [CHR 0x27] @ '':\<newline>''"
  assume a: "pages \<noteq> [] \<and> list_all (preview_ok ''content'') pages"
  then have "\<And>r. r \<in> set pages \<Longrightarrow> preview_ok ''content'' r"
    by (simp add: list_all_iff)
  then have "numbered page_entry pages ?h (format_loop page_entry (Suc 0) pages ?h)"
    by (intro format_loop_numbered page_entry_ok)
  moreover have "format_pages pages space_key = format_loop page_entry (Suc 0) pages ?h"
    using a by (simp only: format_pages_def One_nat_def if_False)
  ultimately show "numbered page_entry pages ?h (format_pages pages space_key)"
    by (simp only:)
next
  let ?h = "''Available Confluence Spaces:\<newline>''"
  assume a: "spaces \<noteq> [] \<and> list_all (preview_ok ''description'') spaces"
  then have "\<And>r. r \<in> set spaces \<Longrightarrow> preview_ok ''description'' r"
    by (simp add: list_all_iff)
  then have "numbered space_entry spaces ?h (format_loop space_entry (Suc 0) spaces ?h)"
    by (intro format_loop_numbered space_entry_ok)
  moreover have "format_spaces spaces = format_loop space_entry (Suc 0) spaces ?h"
    using a by (simp only: format_spaces_def One_nat_def if_False)
  ultimately show "numbered space_entry spaces ?h (format_spaces spaces)"
    by (simp only:)
next
  assume "\<not> list_all (preview_ok ''content'') results"
  from formatter_raises [OF this, of search_entry 1 "''Search Results:\<newline>''"] search_entry_raises
  show "isl (format_search_results results)"
    by (simp add: format_search_results_def)
next
  assume "\<not> list_all (preview_ok ''content'') pages"
  from formatter_raises [OF this, of page_entry 1
      "''Pages from space '' @ [CHR 0x27] @ py_str space_key @ [CHR 0x27] @ '':\<newline>''"]
    page_entry_raises
  show "isl (format_pages pages space_key)"
    by (simp add: format_pages_def)
next
  assume "\<not> list_all (preview_ok ''description'') spaces"
  from formatter_raises [OF this, of space_entry 1 "''Available Confluence Spaces:\<newline>''"]
    space_entry_raises
  show "isl (format_spaces spaces)"
    by (simp add: format_spaces_def)
next
  show "decimal_value 0 (str_nat n) = Some n" by (rule decimal_value_str_nat)
qed

theorem formatters_number_every_record_witness:
  "(two_results \<noteq> [] \<and> list_all (preview_ok ''content'') two_results) \<and>
   numbered search_entry two_results ''Search Results:\<newline>'' (format_search_results two_results) \<and>
   format_search_results two_results =
     Inr (''Search Results:\<newline>'' @
          ''\<newline>1. Title: Deploy guide\<newline>   Space: Engineering\<newline>   Type: page\<newline>'' @
          ''   Content: Run the script....\<newline>'' @
          ''   URL: https://x.atlassian.net/wiki/spaces/ENG/pages/1\<newline>'' @
          ''\<newline>2. Title: Rollback\<newline>   Space: OPS\<newline>   Type: N/A\<newline>'') \<and>
   numbered page_entry two_results
     (''Pages from space '' @ [CHR 0x27] @ py_str (JStr ''ENG'') @ [CHR 0x27] @ '':\<newline>'')
     (format_pages two_results (JStr ''ENG'')) \<and>
   format_pages two_results (JStr ''ENG'') =
     Inr (''Pages from space '' @ [CHR 0x27] @ ''ENG'' @ [CHR 0x27] @ '':\<newline>'' @
          ''\<newline>1. Deploy guide\<newline>   ID: N/A\<newline>'' @
          ''   Preview: Run the script....\<newline>'' @
          ''   URL: https://x.atlassian.net/wiki/spaces/ENG/pages/1\<newline>'' @
          ''\<newline>2. Rollback\<newline>   ID: N/A\<newline>'') \<and>
   (two_spaces \<noteq> [] \<and> list_all (preview_ok ''description'') two_spaces) \<and>
   numbered space_entry two_spaces ''Available Confluence Spaces:\<newline>'' (format_spaces two_spaces) \<and>
   format_spaces two_spaces =
     Inr (''Available Confluence Spaces:\<newline>'' @
          ''\<newline>1. Engineering (Key: ENG)\<newline>'' @
          ''   Description: All of engineering...\<newline>   Type: global\<newline>'' @
          ''\<newline>2. Operations (Key: OPS)\<newline>   Type: global\<newline>'') \<and>
   \<not> list_all (preview_ok ''description'') [odd_space] \<and>
   isl (format_spaces [odd_space]) \<and>
   decimal_value 0 (str_nat 12) = Some 12 \<and>
   str_nat 12 = ''12''"
proof -
  note t = formatters_number_every_record [where results = two_results and pages = two_results
      and space_key = "JStr ''ENG''" and spaces = two_spaces and n = 12]
  note u = formatters_number_every_record [where spaces = "[odd_space]"]
  have h1: "two_results \<noteq> [] \<and> list_all (preview_ok ''content'') two_results"
    by (simp add: two_results_def preview_ok_def dict_get_def)
  have h2: "two_spaces \<noteq> [] \<and> list_all (preview_ok ''description'') two_spaces"
    by (simp add: two_spaces_def preview_ok_def dict_get_def)
  have h3: "\<not> list_all (preview_ok ''description'') [odd_space]"
    by (simp add: odd_space_def preview_ok_def dict_get_def)
  from t h1 have n1: "numbered search_entry two_results ''Search Results:\<newline>''
      (format_search_results two_results)" by blast
  from t h1 have n2: "numbered page_entry two_results
     (''Pages from space '' @ [CHR 0x27] @ py_str (JStr ''ENG'') @ [CHR 0x27] @ '':\<newline>'')
     (format_pages two_results (JStr ''ENG''))" by blast
  from t h2 have n3: "numbered space_entry two_spaces ''Available Confluence Spaces:\<newline>''
      (format_spaces two_spaces)" by blast
  from u h3 have n4: "isl (format_spaces [odd_space])" by blast
  from t have n5: "decimal_value 0 (str_nat 12) = Some 12" by blast
  have o1: "format_search_results two_results =
     Inr (''Search Results:\<newline>'' @
          ''\<newline>1. Title: Deploy guide\<newline>   Space: Engineering\<newline>   Type: page\<newline>'' @
          ''   Content: Run the script....\<newline>'' @
          ''   URL: https://x.atlassian.net/wiki/spaces/ENG/pages/1\<newline>'' @
          ''\<newline>2. Title: Rollback\<newline>   Space: OPS\<newline>   Type: N/A\<newline>'')"
    by (simp add: two_results_def format_search_results_def search_entry_def dict_get_def
        digit_char_def)
  have o2: "format_pages two_results (JStr ''ENG'') =
     Inr (''Pages from space '' @ [CHR 0x27] @ ''ENG'' @ [CHR 0x27] @ '':\<newline>'' @
          ''\<newline>1. Deploy guide\<newline>   ID: N/A\<newline>'' @
          ''   Preview: Run the script....\<newline>'' @
          ''   URL: https://x.atlassian.net/wiki/spaces/ENG/pages/1\<newline>'' @
          ''\<newline>2. Rollback\<newline>   ID: N/A\<newline>'')"
    by (simp add: two_results_def format_pages_def page_entry_def dict_get_def digit_char_def)
  have o3: "format_spaces two_spaces =
     Inr (''Available Confluence Spaces:\<newline>'' @
          ''\<newline>1. Engineering (Key: ENG)\<newline>'' @
          ''   Description: All of engineering...\<newline>   Type: global\<newline>'' @
          ''\<newline>2. Operations (Key: OPS)\<newline>   Type: global\<newline>'')"
    by (simp add: two_spaces_def format_spaces_def space_entry_def dict_get_def digit_char_def)
  have o4: "str_nat 12 = ''12''" by (simp add: digit_char_def)
  from h1 have a1: "two_results \<noteq> []" and a2: "list_all (preview_ok ''content'') two_results"
    by blast+
  from h2 have b1: "two_spaces \<noteq> []" and b2: "list_all (preview_ok ''description'') two_spaces"
    by blast+
  show ?thesis by (intro conjI) (fact a1 a2 n1 o1 n2 o2 b1 b2 n3 o3 h3 n4 n5 o4)+
qed

text \<open>
  Claim C7 as stated fails: the adapter passes the description of a space on as the
  wiki gave it, and on the list of one record with the number 5 for a description the
  formatter of spaces raises instead of writing one numbered entry.
\<close>

theorem formatter_raises_on_number_field:
  "space_record odd_space_answer = Inr odd_space \<and>
   [odd_space] \<noteq> [] \<and>
   format_spaces [odd_space] =
     Inl (Exception ([CHR 0x27] @ ''int'' @ [CHR 0x27] @ '' object is not subscriptable''))"
  by (simp add: space_record_def odd_space_answer_def odd_space_def dict_get_def
      format_spaces_def space_entry_def)




text \<open>
  Claim C6, as the code has it. On an empty list the formatters of search results and
  of spaces return one fixed sentence each; the formatter of pages returns its sentence
  followed by the space key it was given. None raises, none writes a numbered block.
\<close>

theorem formatters_empty:
  "format_search_results [] = Inr ''No results found.'' \<and>
   format_spaces [] = Inr ''No spaces found.'' \<and>
   format_pages [] space_key = Inr (''No pages found in space: '' @ py_str space_key)"
  by (simp add: format_search_results_def format_spaces_def format_pages_def)

text \<open>
  Claim C6 as stated fails for the pages: their sentence changes with the space key.
\<close>

theorem format_pages_empty_not_constant:
  "format_pages [] (JStr ''ENG'') = Inr ''No pages found in space: ENG'' \<and>
   format_pages [] (JStr ''OPS'') = Inr ''No pages found in space: OPS'' \<and>
   format_pages [] (JStr ''ENG'') \<noteq> format_pages [] (JStr ''OPS'')"
  by (simp add: format_pages_def)

section \<open>Properties of the content source adapter\<close>

text \<open>
  An operation can reach the wiki when the adapter holds a client, or when the client
  can be built.
\<close>

definition can_connect :: "env \<Rightarrow> connector \<Rightarrow> bool \<Rightarrow> bool" where
  "can_connect env c h =
     (if h then True
      else case confluence_api env (NewClient (url c) (username c) (api_token c)) of
             Inl e \<Rightarrow> False
           | Inr client \<Rightarrow> True)"

lemma ensure_connected_ok:
  assumes "can_connect env c h"
  shows "\<exists>evs. ensure_connected env c h = (Inr (), True, evs)"
proof (cases h)
  case True
  then show ?thesis
    by (simp add: ensure_connected_def bind_p_def get_handle_def succeed_def)
next
  case False
  with assms obtain client
    where "confluence_api env (NewClient (url c) (username c) (api_token c)) = Inr client"
    by (auto simp: can_connect_def split: sum.splits)
  with False show ?thesis
    by (cases "confluence_api env (GetAllSpaces (JInt 1) None)")
      (simp_all add: ensure_connected_def connect_def bind_p_def try_except_def get_handle_def
        set_handle_def call_api_def log_def succeed_def)
qed

lemma guarded_op:
  assumes "ensure_connected env c h = (Inr (), h1, evs0)"
  shows "bind_p (ensure_connected env c)
           (\<lambda>u. try_except m (\<lambda>e. bind_p (log LError (msg @ str_exn e)) (\<lambda>u. raise e))) h =
         (case m h1 of
            (Inl e, h', evs) \<Rightarrow> (Inl e, h', evs0 @ evs @ [Log LError (msg @ str_exn e)])
          | (Inr x, h', evs) \<Rightarrow> (Inr x, h', evs0 @ evs))"
  using assms
  by (cases "m h1" rule: prod_cases3; cases "fst (m h1)")
    (simp_all add: bind_p_def try_except_def log_def raise_def)

lemma swallowing_op:
  assumes "ensure_connected env c h = (Inr (), h1, evs0)"
  shows "bind_p (ensure_connected env c)
           (\<lambda>u. try_except m (\<lambda>e. bind_p (log LError (msg @ str_exn e)) (\<lambda>u. succeed None))) h =
         (case m h1 of
            (Inl e, h', evs) \<Rightarrow> (Inr None, h', evs0 @ evs @ [Log LError (msg @ str_exn e)])
          | (Inr x, h', evs) \<Rightarrow> (Inr x, h', evs0 @ evs))"
  using assms
  by (cases "m h1" rule: prod_cases3; cases "fst (m h1)")
    (simp_all add: bind_p_def try_except_def log_def succeed_def)

lemma guarded_failure:
  assumes "r = (case b of
            (Inl e, h', evs) \<Rightarrow> (Inl e, h', evs0 @ evs @ [Log LError (msg @ str_exn e)])
          | (Inr x, h', evs) \<Rightarrow> (Inr x, h', evs0 @ evs))"
  shows "(result_of b = Inl e \<longrightarrow>
            result_of r = Inl e \<and> last (events_of r) = Log LError (msg @ str_exn e)) \<and>
         (result_of r = Inl e \<longrightarrow> last (events_of r) = Log LError (msg @ str_exn e))"
  using assms
  by (cases b rule: prod_cases3; cases "fst b") (simp_all add: result_of_def events_of_def)

lemma swallowed_failure:
  assumes "r = (case b of
            (Inl e, h', evs) \<Rightarrow> (Inr None, h', evs0 @ evs @ [Log LError (msg @ str_exn e)])
          | (Inr x, h', evs) \<Rightarrow> (Inr x, h', evs0 @ evs))"
  shows "(result_of b = Inl e \<longrightarrow> result_of r = Inr None) \<and>
         (result_of b = Inr x \<longrightarrow> result_of r = Inr x) \<and>
         (\<exists>v. result_of r = Inr v)"
  using assms
  by (cases b rule: prod_cases3; cases "fst b") (simp_all add: result_of_def events_of_def)

lemma call_api_fails:
  "confluence_api env call = Inl e \<Longrightarrow> result_of (bind_p (call_api env call) f h) = Inl e"
  by (simp add: bind_p_def call_api_def result_of_def)

lemma call_api_returns:
  "confluence_api env call = Inr v \<Longrightarrow>
   result_of (bind_p (call_api env call) f h) = result_of (f v h)"
  by (cases "f v h" rule: prod_cases3) (simp add: bind_p_def call_api_def result_of_def)


text \<open>A connector, a wiki where every call fails, and a wiki that finds nothing.\<close>

definition wiki :: connector where
  "wiki = \<lparr>url = ''https://x.atlassian.net/wiki/'', username = ''ann@example.org'',
            api_token = ''secret'', default_space = Some ''ENG''\<rparr>"

definition failing_env :: env where
  "failing_env =
     \<lparr>confluence_api = (\<lambda>call. Inl (Exception ''503 Service Unavailable'')),
      chat_create = (\<lambda>r. Inr []),
      json_loads = (\<lambda>s. Inr JNull)\<rparr>"

definition missing_env :: env where
  "missing_env =
     \<lparr>confluence_api = (\<lambda>call. Inr JNull),
      chat_create = (\<lambda>r. Inr []),
      json_loads = (\<lambda>s. Inr JNull)\<rparr>"

text \<open>
  Claim C3. \<^verbatim>\<open>get_page_content\<close> and \<^verbatim>\<open>get_page_by_title\<close> return \<^verbatim>\<open>None\<close> when
  the call of the wiki raises and when it returns no page, and they raise nothing
  themselves. \<^verbatim>\<open>get_spaces\<close>, \<^verbatim>\<open>get_pages_from_space\<close> and \<^verbatim>\<open>search_content\<close>
  raise the exception of the failed call again; whenever one of them fails, the last
  thing it did was to log the text of the exception as an error.
\<close>

theorem adapter_failures:
  assumes "can_connect env c h"
  shows
    "(confluence_api env (GetPageById page_id ''body.storage,version,space'') = Inl e \<longrightarrow>
        result_of (get_page_content env c page_id h) = Inr None) \<and>
     (confluence_api env (GetPageById page_id ''body.storage,version,space'') = Inr page \<and>
        \<not> py_truthy page \<longrightarrow>
        result_of (get_page_content env c page_id h) = Inr None) \<and>
     (\<exists>v. result_of (get_page_content env c page_id h) = Inr v) \<and>
     (confluence_api env (GetPageByTitle space title) = Inl e \<longrightarrow>
        result_of (get_page_by_title env c space title h) = Inr None) \<and>
     (confluence_api env (GetPageByTitle space title) = Inr page \<and> \<not> py_truthy page \<longrightarrow>
        result_of (get_page_by_title env c space title h) = Inr None) \<and>
     (\<exists>v. result_of (get_page_by_title env c space title h) = Inr v) \<and>
     (confluence_api env (GetAllSpaces limit (Some ''description.plain'')) = Inl e \<longrightarrow>
        result_of (get_spaces env c limit h) = Inl e) \<and>
     (result_of (get_spaces env c limit h) = Inl e \<longrightarrow>
        last (events_of (get_spaces env c limit h)) =
          Log LError (''Failed to retrieve spaces: '' @ str_exn e)) \<and>
     (confluence_api env (GetAllPagesFromSpace space_key limit ''body.storage,version'') = Inl e \<longrightarrow>
        result_of (get_pages_from_space env c space_key limit h) = Inl e) \<and>
     (result_of (get_pages_from_space env c space_key limit h) = Inl e \<longrightarrow>
        last (events_of (get_pages_from_space env c space_key limit h)) =
          Log LError (''Failed to retrieve pages from space: '' @ str_exn e)) \<and>
     (confluence_api env (Cql (cql_query query_text space_key) limit ''body.storage,version,space'') = Inl e \<longrightarrow>
        result_of (search_content env c query_text space_key limit h) = Inl e) \<and>
     (result_of (search_content env c query_text space_key limit h) = Inl e \<longrightarrow>
        last (events_of (search_content env c query_text space_key limit h)) =
          Log LError (''Search failed: '' @ str_exn e))"
proof -
  from assms obtain evs0 where ens: "ensure_connected env c h = (Inr (), True, evs0)"
    using ensure_connected_ok by blast
  have "get_page_content env c page_id h =
      (case get_page_content_try env c page_id True of
         (Inl e, h', evs) \<Rightarrow>
           (Inr None, h', evs0 @ evs @ [Log LError (''Failed to get page content: '' @ str_exn e)])
       | (Inr x, h', evs) \<Rightarrow> (Inr x, h', evs0 @ evs))"
    unfolding get_page_content_def by (rule swallowing_op [OF ens])
  note content = swallowed_failure [OF this]
  have "get_page_by_title env c space title h =
      (case get_page_by_title_try env c space title True of
         (Inl e, h', evs) \<Rightarrow>
           (Inr None, h', evs0 @ evs @ [Log LError (''Failed to get page by title: '' @ str_exn e)])
       | (Inr x, h', evs) \<Rightarrow> (Inr x, h', evs0 @ evs))"
    unfolding get_page_by_title_def by (rule swallowing_op [OF ens])
  note by_title = swallowed_failure [OF this]
  have "get_spaces env c limit h =
      (case get_spaces_try env c limit True of
         (Inl e, h', evs) \<Rightarrow>
           (Inl e, h', evs0 @ evs @ [Log LError (''Failed to retrieve spaces: '' @ str_exn e)])
       | (Inr x, h', evs) \<Rightarrow> (Inr x, h', evs0 @ evs))"
    unfolding get_spaces_def by (rule guarded_op [OF ens])
  note spaces = guarded_failure [OF this]
  have "get_pages_from_space env c space_key limit h =
      (case get_pages_from_space_try env c space_key limit True of
         (Inl e, h', evs) \<Rightarrow>
           (Inl e, h', evs0 @ evs @
              [Log LError (''Failed to retrieve pages from space: '' @ str_exn e)])
       | (Inr x, h', evs) \<Rightarrow> (Inr x, h', evs0 @ evs))"
    unfolding get_pages_from_space_def by (rule guarded_op [OF ens])
  note pages = guarded_failure [OF this]
  have "search_content env c query_text space_key limit h =
      (case search_content_try env c query_text space_key limit True of
         (Inl e, h', evs) \<Rightarrow>
           (Inl e, h', evs0 @ evs @ [Log LError (''Search failed: '' @ str_exn e)])
       | (Inr x, h', evs) \<Rightarrow> (Inr x, h', evs0 @ evs))"
    unfolding search_content_def by (rule guarded_op [OF ens])
  note search = guarded_failure [OF this]
  have 1: "confluence_api env (GetPageById page_id ''body.storage,version,space'') = Inl e \<longrightarrow>
        result_of (get_page_content env c page_id h) = Inr None"
    using content by (simp add: get_page_content_try_def call_api_fails)
  have 2: "confluence_api env (GetPageById page_id ''body.storage,version,space'') = Inr page \<and>
        \<not> py_truthy page \<longrightarrow>
        result_of (get_page_content env c page_id h) = Inr None"
  proof
    assume "confluence_api env (GetPageById page_id ''body.storage,version,space'') = Inr page \<and>
        \<not> py_truthy page"
    then have "result_of (get_page_content_try env c page_id True) = Inr None"
      by (simp add: get_page_content_try_def bind_p_def call_api_def succeed_def result_of_def)
    with content show "result_of (get_page_content env c page_id h) = Inr None" by blast
  qed
  have 3: "\<exists>v. result_of (get_page_content env c page_id h) = Inr v"
    using content by blast
  have 4: "confluence_api env (GetPageByTitle space title) = Inl e \<longrightarrow>
        result_of (get_page_by_title env c space title h) = Inr None"
    using by_title by (simp add: get_page_by_title_try_def call_api_fails)
  have 5: "confluence_api env (GetPageByTitle space title) = Inr page \<and> \<not> py_truthy page \<longrightarrow>
        result_of (get_page_by_title env c space title h) = Inr None"
  proof
    assume "confluence_api env (GetPageByTitle space title) = Inr page \<and> \<not> py_truthy page"
    then have "result_of (get_page_by_title_try env c space title True) = Inr None"
      by (simp add: get_page_by_title_try_def bind_p_def call_api_def succeed_def result_of_def)
    with by_title show "result_of (get_page_by_title env c space title h) = Inr None" by blast
  qed
  have 6: "\<exists>v. result_of (get_page_by_title env c space title h) = Inr v"
    using by_title by blast
  have 7: "confluence_api env (GetAllSpaces limit (Some ''description.plain'')) = Inl e \<longrightarrow>
        result_of (get_spaces env c limit h) = Inl e"
    using spaces by (simp add: get_spaces_try_def call_api_fails)
  have 8: "result_of (get_spaces env c limit h) = Inl e \<longrightarrow>
        last (events_of (get_spaces env c limit h)) =
          Log LError (''Failed to retrieve spaces: '' @ str_exn e)"
    using spaces by blast
  have 9: "confluence_api env (GetAllPagesFromSpace space_key limit ''body.storage,version'') = Inl e \<longrightarrow>
        result_of (get_pages_from_space env c space_key limit h) = Inl e"
    using pages by (simp add: get_pages_from_space_try_def call_api_fails)
  have 10: "result_of (get_pages_from_space env c space_key limit h) = Inl e \<longrightarrow>
        last (events_of (get_pages_from_space env c space_key limit h)) =
          Log LError (''Failed to retrieve pages from space: '' @ str_exn e)"
    using pages by blast
  have 11: "confluence_api env (Cql (cql_query query_text space_key) limit ''body.storage,version,space'') = Inl e \<longrightarrow>
        result_of (search_content env c query_text space_key limit h) = Inl e"
    using search by (simp add: search_content_try_def call_api_fails)
  have 12: "result_of (search_content env c query_text space_key limit h) = Inl e \<longrightarrow>
        last (events_of (search_content env c query_text space_key limit h)) =
          Log LError (''Search failed: '' @ str_exn e)"
    using search by blast
  from 1 2 3 4 5 6 7 8 9 10 11 12 show ?thesis by (intro conjI)
qed

theorem adapter_failures_witness:
  "can_connect failing_env wiki True \<and>
   confluence_api failing_env (GetPageById ''12'' ''body.storage,version,space'') =
     Inl (Exception ''503 Service Unavailable'') \<and>
   result_of (get_page_content failing_env wiki ''12'' True) = Inr None \<and>
   result_of (get_page_by_title failing_env wiki ''ENG'' ''Home'' True) = Inr None \<and>
   result_of (get_spaces failing_env wiki (JInt 100) True) =
     Inl (Exception ''503 Service Unavailable'') \<and>
   last (events_of (get_spaces failing_env wiki (JInt 100) True)) =
     Log LError ''Failed to retrieve spaces: 503 Service Unavailable'' \<and>
   result_of (get_pages_from_space failing_env wiki (JStr ''ENG'') (JInt 100) True) =
     Inl (Exception ''503 Service Unavailable'') \<and>
   last (events_of (get_pages_from_space failing_env wiki (JStr ''ENG'') (JInt 100) True)) =
     Log LError ''Failed to retrieve pages from space: 503 Service Unavailable'' \<and>
   result_of (search_content failing_env wiki (JStr ''deploy'') (JStr ''ENG'') (JInt 100) True) =
     Inl (Exception ''503 Service Unavailable'') \<and>
   last (events_of (search_content failing_env wiki (JStr ''deploy'') (JStr ''ENG'') (JInt 100) True)) =
     Log LError ''Search failed: 503 Service Unavailable'' \<and>
   can_connect missing_env wiki False \<and>
   confluence_api missing_env (GetPageById ''12'' ''body.storage,version,space'') = Inr JNull \<and>
   \<not> py_truthy JNull \<and>
   result_of (get_page_content missing_env wiki ''12'' False) = Inr None \<and>
   result_of (get_page_by_title missing_env wiki ''ENG'' ''Home'' False) = Inr None"
  using adapter_failures [where env = failing_env and c = wiki and h = True and page_id = "''12''"
      and e = "Exception ''503 Service Unavailable''" and space = "''ENG''" and title = "''Home''"
      and limit = "JInt 100" and space_key = "JStr ''ENG''" and query_text = "JStr ''deploy''"]
    adapter_failures [where env = missing_env and c = wiki and h = False and page_id = "''12''"
      and page = JNull and space = "''ENG''" and title = "''Home''"]
  by (simp add: failing_env_def missing_env_def can_connect_def)

section \<open>Properties of the orchestrator\<close>

text \<open>
  The second call of the language model is the one made at temperature 0.7; the first,
  the classifier's, is made at 0.1. A request for the pages of a space is the one call
  \<^verbatim>\<open>get_pages_from_space\<close> sends to the wiki.
\<close>

fun is_synthesis_call :: "event \<Rightarrow> bool" where
  "is_synthesis_call (Chat r) = (temperature r = 7)"
| "is_synthesis_call (Api call) = False"
| "is_synthesis_call (Log l msg) = False"

fun is_pages_call :: "event \<Rightarrow> bool" where
  "is_pages_call (Api (GetAllPagesFromSpace space_key limit expand)) = True"
| "is_pages_call ev = False"

text \<open>Every event a program causes, from whatever state, satisfies \<open>P\<close>.\<close>

definition only_events :: "(event \<Rightarrow> bool) \<Rightarrow> 'a prog \<Rightarrow> bool" where
  "only_events P m = (\<forall>h. list_all P (events_of (m h)))"

text \<open>
  The three tests of the \<^verbatim>\<open>except\<close> block, in their order. The third operand of the
  first test, \<^verbatim>\<open>"insufficient_quota" in error_msg.lower()\<close>, holds only where the second
  does.
\<close>

definition quota_marks :: "string \<Rightarrow> bool" where
  "quota_marks m = (py_in ''429'' m \<or> py_in ''quota'' (lower m))"

definition auth_marks :: "string \<Rightarrow> bool" where
  "auth_marks m = (py_in ''401'' m \<or> py_in ''unauthorized'' (lower m))"

definition model_marks :: "string \<Rightarrow> bool" where
  "model_marks m = (py_in ''404'' m \<or> py_in ''model'' (lower m))"

text \<open>
  An agent with the default space ENG, and services for the examples: a language model
  that fails on its second call, one that fails on every call, a classifier whose answer
  does not parse, a wiki that answers 404, a decision for the pages of a space whose
  space key is \<^verbatim>\<open>null\<close>, and the same decision without the key.
\<close>

definition demo_agent :: agent where
  "demo_agent = \<lparr>model = ''gpt-3.5-turbo'', confluence = wiki\<rparr>"

definition synthesis_quota_env :: env where
  "synthesis_quota_env =
     \<lparr>confluence_api = (\<lambda>call. Inr (JDict [(''results'', JList [])])),
      chat_create = (\<lambda>r. if temperature r = 7
                          then Inl (Exception ''Error: insufficient_quota'')
                          else Inr [Some ''get_spaces'']),
      json_loads = (\<lambda>s. Inr (JDict [(''action'', JStr ''get_spaces'')]))\<rparr>"

definition classifier_quota_env :: env where
  "classifier_quota_env =
     \<lparr>confluence_api = (\<lambda>call. Inr (JDict [(''results'', JList [])])),
      chat_create = (\<lambda>r. Inl (Exception ''Error: insufficient_quota'')),
      json_loads = (\<lambda>s. Inr (JDict [(''action'', JStr ''get_spaces'')]))\<rparr>"

definition bad_json_env :: env where
  "bad_json_env =
     \<lparr>confluence_api = (\<lambda>call. Inr (JDict [(''results'', JList [])])),
      chat_create = (\<lambda>r. Inr [Some ''not json'']),
      json_loads = (\<lambda>s. Inl (Exception ''Expecting value: line 1 column 1 (char 0)''))\<rparr>"

definition not_found_env :: env where
  "not_found_env =
     \<lparr>confluence_api = (\<lambda>call. Inl (Exception ''404 Client Error: Not Found'')),
      chat_create = (\<lambda>r. Inr [Some ''get_spaces'']),
      json_loads = (\<lambda>s. Inr (JDict [(''action'', JStr ''get_spaces'')]))\<rparr>"

definition null_key_env :: env where
  "null_key_env =
     \<lparr>confluence_api =
        (\<lambda>call. case call of
           GetAllSpaces limit expand \<Rightarrow>
             Inr (JDict [(''results'',
                    JList [JDict [(''key'', JStr ''ENG''), (''name'', JStr ''Engineering'')]])])
         | _ \<Rightarrow> Inr (JList [])),
      chat_create = (\<lambda>r. Inr [Some ''get_pages, no key'']),
      json_loads = (\<lambda>s. Inr (JDict [(''action'', JStr ''get_pages''), (''space_key'', JNull)]))\<rparr>"

definition absent_key_env :: env where
  "absent_key_env = null_key_env\<lparr>json_loads := (\<lambda>s. Inr (JDict [(''action'', JStr ''get_pages'')]))\<rparr>"

subsection \<open>The events of a query\<close>

lemma only_succeed: "only_events P (succeed x)"
  by (simp add: only_events_def succeed_def events_of_def)

lemma only_raise: "only_events P (raise e)"
  by (simp add: only_events_def raise_def events_of_def)

lemma only_lift: "only_events P (lift r)"
  by (simp add: only_events_def lift_def events_of_def)

lemma only_get_handle: "only_events P get_handle"
  by (simp add: only_events_def get_handle_def events_of_def)

lemma only_set_handle: "only_events P set_handle"
  by (simp add: only_events_def set_handle_def events_of_def)

lemma only_log: "P (Log l msg) \<Longrightarrow> only_events P (log l msg)"
  by (simp add: only_events_def log_def events_of_def)

lemma only_call_api: "P (Api call) \<Longrightarrow> only_events P (call_api env call)"
  by (simp add: only_events_def call_api_def events_of_def)

lemma only_call_chat: "P (Chat r) \<Longrightarrow> only_events P (call_chat env r)"
  by (simp add: only_events_def call_chat_def events_of_def)

lemma only_if: "only_events P m \<Longrightarrow> only_events P n \<Longrightarrow> only_events P (if b then m else n)"
  by simp

lemma only_bind:
  assumes "only_events P m" and "\<And>x. only_events P (f x)"
  shows "only_events P (bind_p m f)"
  unfolding only_events_def
proof
  fix h
  obtain r h' evs where m: "m h = (r, h', evs)" by (cases "m h" rule: prod_cases3)
  from assms(1) m have evs: "list_all P evs" by (auto simp: only_events_def events_of_def dest: spec [of _ h])
  show "list_all P (events_of (bind_p m f h))"
  proof (cases r)
    case (Inl e)
    with m evs show ?thesis by (simp add: bind_p_def events_of_def)
  next
    case (Inr x)
    obtain r2 h2 evs2 where f: "f x h' = (r2, h2, evs2)" by (cases "f x h'" rule: prod_cases3)
    from assms(2) [of x] f have "list_all P evs2"
      by (auto simp: only_events_def events_of_def dest: spec [of _ h'])
    with Inr m f evs show ?thesis by (simp add: bind_p_def events_of_def)
  qed
qed

lemma only_try:
  assumes "only_events P m" and "\<And>e. only_events P (handler e)"
  shows "only_events P (try_except m handler)"
  unfolding only_events_def
proof
  fix h
  obtain r h' evs where m: "m h = (r, h', evs)" by (cases "m h" rule: prod_cases3)
  from assms(1) m have evs: "list_all P evs" by (auto simp: only_events_def events_of_def dest: spec [of _ h])
  show "list_all P (events_of (try_except m handler h))"
  proof (cases r)
    case (Inr x)
    with m evs show ?thesis by (simp add: try_except_def events_of_def)
  next
    case (Inl e)
    obtain r2 h2 evs2 where f: "handler e h' = (r2, h2, evs2)"
      by (cases "handler e h'" rule: prod_cases3)
    from assms(2) [of e] f have "list_all P evs2"
      by (auto simp: only_events_def events_of_def dest: spec [of _ h'])
    with Inl m f evs show ?thesis by (simp add: try_except_def events_of_def)
  qed
qed

lemmas only_intros =
  only_bind only_try only_if only_succeed only_raise only_lift only_get_handle only_set_handle
  only_log only_call_api

lemma only_ensure_connected:
  assumes "\<And>call. P (Api call)" and "\<And>l msg. P (Log l msg)"
  shows "only_events P (ensure_connected env c)"
  unfolding ensure_connected_def connect_def by (intro only_intros assms)

lemma only_get_spaces:
  assumes "\<And>call. P (Api call)" and "\<And>l msg. P (Log l msg)"
  shows "only_events P (get_spaces env c limit)"
  unfolding get_spaces_def get_spaces_try_def
  by (intro only_intros only_ensure_connected assms)

lemma only_search_content:
  assumes "\<And>call. P (Api call)" and "\<And>l msg. P (Log l msg)"
  shows "only_events P (search_content env c query_text space_key limit)"
  unfolding search_content_def search_content_try_def
  by (intro only_intros only_ensure_connected assms)

lemma only_get_pages_from_space:
  assumes "\<And>call. P (Api call)" and "\<And>l msg. P (Log l msg)"
  shows "only_events P (get_pages_from_space env c space_key limit)"
  unfolding get_pages_from_space_def get_pages_from_space_try_def
  by (intro only_intros only_ensure_connected assms)

lemma only_dispatch:
  assumes "\<And>call. P (Api call)" and "\<And>l msg. P (Log l msg)"
  shows "only_events P (dispatch env a user_query analysis)"
  unfolding dispatch_def
  by (intro only_intros only_get_spaces only_search_content only_get_pages_from_space assms)

lemma temperature_classifier: "temperature (classifier_request a q) = 1"
  by (simp add: classifier_request_def)

lemma temperature_synthesis: "temperature (synthesis_request a q d) = 7"
  by (simp add: synthesis_request_def)

lemma gather_no_synthesis:
  "only_events (\<lambda>ev. \<not> is_synthesis_call ev) (gather env a q)"
  unfolding gather_def classify_def
  by (intro only_bind only_lift only_call_chat only_dispatch) (simp_all add: temperature_classifier)

lemma gather_events: "filter is_synthesis_call (events_of (gather env a q h)) = []"
  using gather_no_synthesis [of env a q]
  by (simp add: only_events_def list_all_iff filter_empty_conv)

lemma synthesize_events:
  "filter is_synthesis_call (events_of (synthesize env a q d h)) = [Chat (synthesis_request a q d)]"
proof (cases "chat_create env (synthesis_request a q d)")
  case (Inl e)
  then show ?thesis
    by (simp add: synthesize_def bind_p_def call_chat_def events_of_def temperature_synthesis)
next
  case (Inr choices)
  then show ?thesis
    by (cases "choice_content choices")
      (simp_all add: synthesize_def bind_p_def call_chat_def lift_def log_def succeed_def
        events_of_def temperature_synthesis)
qed

lemma query_body_cases:
  "query_body env a q h =
     (case gather env a q h of
        (Inl e, h', evs) \<Rightarrow> (Inl e, h', evs)
      | (Inr d, h', evs) \<Rightarrow>
          (case synthesize env a q d h' of (r, h'', evs') \<Rightarrow> (r, h'', evs @ evs')))"
  by (simp add: query_body_def bind_p_def)

lemma query_cases:
  "query env a q h =
     (case query_body env a q h of
        (Inl e, h', evs) \<Rightarrow>
          (Inr (Some (error_answer (str_exn e))), h',
           evs @ [Log LError (''Error processing query: '' @ str_exn e)])
      | (Inr x, h', evs) \<Rightarrow> (Inr x, h', evs))"
  by (cases "query_body env a q h" rule: prod_cases3; cases "fst (query_body env a q h)")
    (simp_all add: query_def try_except_def bind_p_def log_def succeed_def)

lemma query_result:
  "result_of (query env a q h) =
     (case result_of (query_body env a q h) of
        Inl e \<Rightarrow> Inr (Some (error_answer (str_exn e)))
      | Inr x \<Rightarrow> Inr x)"
  by (cases "query_body env a q h" rule: prod_cases3; cases "fst (query_body env a q h)")
    (simp_all add: query_cases result_of_def)

lemma query_synthesis_events:
  "filter is_synthesis_call (events_of (query env a q h)) =
     filter is_synthesis_call (events_of (query_body env a q h))"
  by (cases "query_body env a q h" rule: prod_cases3; cases "fst (query_body env a q h)")
    (simp_all add: query_cases events_of_def)

lemma query_body_gather_fails:
  assumes "result_of (gather env a q h) = Inl e"
  shows "result_of (query_body env a q h) = Inl e \<and>
         events_of (query_body env a q h) = events_of (gather env a q h)"
  using assms
  by (cases "gather env a q h" rule: prod_cases3)
    (simp add: query_body_cases result_of_def events_of_def)

lemma query_body_synthesis_events:
  "length (filter is_synthesis_call (events_of (query_body env a q h))) \<le> 1"
proof (cases "gather env a q h" rule: prod_cases3)
  case (fields r h' evs)
  have g: "filter is_synthesis_call evs = []"
    using gather_events [of env a q h] fields by (simp add: events_of_def)
  show ?thesis
  proof (cases r)
    case (Inl e)
    with fields g show ?thesis by (simp add: query_body_cases events_of_def)
  next
    case (Inr d)
    obtain r2 h2 evs2 where s: "synthesize env a q d h' = (r2, h2, evs2)"
      by (cases "synthesize env a q d h'" rule: prod_cases3)
    with synthesize_events [of env a q d h'] have "filter is_synthesis_call evs2 = [Chat (synthesis_request a q d)]"
      by (simp add: events_of_def)
    with Inr fields g s show ?thesis by (simp add: query_body_cases events_of_def)
  qed
qed

lemma py_in_quota: "py_in ''insufficient_quota'' s \<Longrightarrow> py_in ''quota'' s"
proof -
  assume "py_in ''insufficient_quota'' s"
  then obtain p r where "s = p @ ''insufficient_quota'' @ r" unfolding py_in_iff by blast
  then have "s = (p @ ''insufficient_'') @ ''quota'' @ r" by simp
  then show ?thesis unfolding py_in_iff by blast
qed

lemma bind_p_fails: "result_of (m h) = Inl e \<Longrightarrow> result_of (bind_p m f h) = Inl e"
  by (cases "m h" rule: prod_cases3) (simp add: bind_p_def result_of_def)

lemma get_spaces_api_fails:
  assumes "can_connect env c h"
    and "confluence_api env (GetAllSpaces limit (Some ''description.plain'')) = Inl e"
  shows "result_of (get_spaces env c limit h) = Inl e"
proof -
  from assms(1) obtain evs0 where ens: "ensure_connected env c h = (Inr (), True, evs0)"
    using ensure_connected_ok by blast
  have "get_spaces env c limit h =
      (case get_spaces_try env c limit True of
         (Inl e, h', evs) \<Rightarrow>
           (Inl e, h', evs0 @ evs @ [Log LError (''Failed to retrieve spaces: '' @ str_exn e)])
       | (Inr x, h', evs) \<Rightarrow> (Inr x, h', evs0 @ evs))"
    unfolding get_spaces_def by (rule guarded_op [OF ens])
  from guarded_failure [OF this] assms(2) show ?thesis
    by (simp add: get_spaces_try_def call_api_fails)
qed

lemma classify_result:
  "result_of (classify env a q h) =
     bind_e (chat_create env (classifier_request a q)) (\<lambda>choices.
     bind_e (choice_content choices) (loads env))"
  by (cases "chat_create env (classifier_request a q)")
    (simp_all add: classify_def bind_p_def call_chat_def lift_def result_of_def)

lemma classifier_fails:
  assumes "chat_create env (classifier_request a q) = Inl e"
  shows "result_of (gather env a q h) = Inl e"
  unfolding gather_def using assms by (intro bind_p_fails) (simp add: classify_result)

lemma parse_fails:
  assumes "chat_create env (classifier_request a q) = Inr (Some reply # others)"
    and "json_loads env reply = Inl e"
  shows "result_of (gather env a q h) = Inl e"
  unfolding gather_def using assms
  by (intro bind_p_fails) (simp add: classify_result choice_content_def loads_def)

lemma synthesis_fails:
  assumes "result_of (gather env a q h) = Inr d"
    and "chat_create env (synthesis_request a q d) = Inl e"
  shows "result_of (query_body env a q h) = Inl e"
proof (cases "gather env a q h" rule: prod_cases3)
  case (fields r h' evs)
  with assms(1) have "r = Inr d" by (simp add: result_of_def)
  with fields assms(2) show ?thesis
    by (simp add: query_body_cases synthesize_def bind_p_def call_chat_def result_of_def)
qed

lemma gather_get_spaces_fails:
  assumes "can_connect env (confluence a) h"
    and "chat_create env (classifier_request a q) = Inr (Some reply # others)"
    and "json_loads env reply = Inr (JDict d)"
    and "dict_get d ''action'' (JStr ''general'') = JStr ''get_spaces''"
    and "confluence_api env
           (GetAllSpaces (dict_get d ''max_results'' (JInt 100)) (Some ''description.plain'')) = Inl e"
  shows "result_of (gather env a q h) = Inl e"
proof -
  have c: "classify env a q h = (Inr (JDict d), h, [Chat (classifier_request a q)])"
    using assms(2,3)
    by (simp add: classify_def bind_p_def call_chat_def lift_def choice_content_def loads_def)
  have "result_of (get_spaces env (confluence a) (dict_get d ''max_results'' (JInt 100)) h) = Inl e"
    using assms(1,5) by (rule get_spaces_api_fails)
  then have "result_of (dispatch env a q (JDict d) h) = Inl e"
    using assms(4)
    by (cases "get_spaces env (confluence a) (dict_get d ''max_results'' (JInt 100)) h"
        rule: prod_cases3)
      (simp add: dispatch_def bind_p_def lift_def result_of_def)
  with c show ?thesis
    by (cases "dispatch env a q (JDict d) h" rule: prod_cases3)
      (simp add: gather_def bind_p_def result_of_def)
qed

lemma query_failure:
  "result_of (query_body env a q h) = Inl e \<Longrightarrow>
   result_of (query env a q h) = Inr (Some (error_answer (str_exn e)))"
  by (simp add: query_result)

lemma gather_synthesis_quota:
  "gather synthesis_quota_env demo_agent q True =
     (Inr ''No spaces found.'', True,
      [Chat (classifier_request demo_agent q),
       Api (GetAllSpaces (JInt 100) (Some ''description.plain'')),
       Log LInfo ''Retrieved 0 spaces''])"
  by (simp add: gather_def classify_def dispatch_def get_spaces_def get_spaces_try_def
      ensure_connected_def bind_p_def try_except_def call_chat_def call_api_def lift_def log_def
      succeed_def get_handle_def choice_content_def loads_def synthesis_quota_env_def
      temperature_classifier dict_get_def format_spaces_def digit_char_def)

lemma gather_null_key:
  "gather null_key_env demo_agent q True =
     (Inr ''Space key not specified. Available spaces:\<newline>- Engineering (Key: ENG)\<newline>'', True,
      [Chat (classifier_request demo_agent q),
       Api (GetAllSpaces (JInt 100) (Some ''description.plain'')),
       Log LInfo ''Retrieved 1 spaces''])"
  by (simp add: gather_def classify_def dispatch_def get_spaces_def get_spaces_try_def
      ensure_connected_def bind_p_def try_except_def call_chat_def call_api_def lift_def log_def
      succeed_def get_handle_def choice_content_def loads_def null_key_env_def
      dict_get_def dict_item_def digit_char_def demo_agent_def wiki_def opt_str_def
      space_record_def)

subsection \<open>The decision for the pages of a space\<close>

text \<open>
  Claim C1, at an input where the code departs from it. The decision has the action
  \<^verbatim>\<open>get_pages\<close> and the space key \<^verbatim>\<open>null\<close>, and the default space ENG is
  configured. \<^verbatim>\<open>analysis.get("space_key", default)\<close> returns the \<^verbatim>\<open>null\<close> that
  is there, not the default: the data are the message that no space key was specified,
  with the list of spaces, and no request for the pages of a space is sent.
\<close>

theorem default_space_skipped_for_null_key:
  "default_space (confluence demo_agent) = Some ''ENG'' \<and>
   json_loads null_key_env ''get_pages, no key'' =
     Inr (JDict [(''action'', JStr ''get_pages''), (''space_key'', JNull)]) \<and>
   result_of (gather null_key_env demo_agent ''list the pages'' True) =
     Inr ''Space key not specified. Available spaces:\<newline>- Engineering (Key: ENG)\<newline>'' \<and>
   filter is_pages_call (events_of (query null_key_env demo_agent ''list the pages'' True)) = []"
proof -
  let ?q = "''list the pages''"
  have 1: "default_space (confluence demo_agent) = Some ''ENG''"
    by (simp add: demo_agent_def wiki_def)
  have 2: "json_loads null_key_env ''get_pages, no key'' =
     Inr (JDict [(''action'', JStr ''get_pages''), (''space_key'', JNull)])"
    by (simp add: null_key_env_def)
  have 3: "result_of (gather null_key_env demo_agent ?q True) =
     Inr ''Space key not specified. Available spaces:\<newline>- Engineering (Key: ENG)\<newline>''"
    by (simp add: gather_null_key result_of_def)
  obtain r h' evs where s: "synthesize null_key_env demo_agent ?q
      ''Space key not specified. Available spaces:\<newline>- Engineering (Key: ENG)\<newline>'' True = (r, h', evs)"
    by (rule prod_cases3)
  have "evs = [Chat (synthesis_request demo_agent ?q
      ''Space key not specified. Available spaces:\<newline>- Engineering (Key: ENG)\<newline>''),
      Log LInfo ''Generated response for query: list the pages...'']"
    using s
    by (simp add: synthesize_def bind_p_def call_chat_def lift_def log_def succeed_def
        choice_content_def null_key_env_def)
  then have 4: "filter is_pages_call (events_of (query null_key_env demo_agent ?q True)) = []"
    using s
    by (cases r) (simp_all add: query_cases query_body_cases gather_null_key events_of_def)
  from 1 2 3 4 show ?thesis by blast
qed

text \<open>
  The same decision without the key \<^verbatim>\<open>space_key\<close> does fall back to the default
  space: the pages of ENG are requested.
\<close>

lemma default_space_used_for_absent_key:
  "filter is_pages_call (events_of (gather absent_key_env demo_agent ''list the pages'' True)) =
     [Api (GetAllPagesFromSpace (JStr ''ENG'') (JInt 50) ''body.storage,version'')]"
  by (simp add: gather_def classify_def dispatch_def get_pages_from_space_def
      get_pages_from_space_try_def
      ensure_connected_def bind_p_def try_except_def call_chat_def call_api_def lift_def log_def
      succeed_def get_handle_def choice_content_def loads_def null_key_env_def absent_key_env_def
      dict_get_def digit_char_def demo_agent_def wiki_def opt_str_def format_pages_def
      events_of_def)

subsection \<open>Failures of a query\<close>

text \<open>
  Claim C2, as the code has it. When an exception whose text contains
  \<^verbatim>\<open>insufficient_quota\<close> ends the \<^verbatim>\<open>try\<close> block, the query returns the billing
  message. The second call of the language model is made at most once in a query, and
  not at all when the exception was raised before it, by the classifier's call, the
  parsing of its answer or the fetching of the data.
\<close>

theorem quota_failure_answer:
  assumes "result_of (query_body env a q h) = Inl e"
    and "py_in ''insufficient_quota'' (str_exn e)"
  shows "result_of (query env a q h) = Inr (Some billing_message) \<and>
         length (filter is_synthesis_call (events_of (query env a q h))) \<le> 1 \<and>
         (isl (result_of (gather env a q h)) \<longrightarrow>
            filter is_synthesis_call (events_of (query env a q h)) = [])"
proof -
  from assms(2) have "py_in ''insufficient_quota'' (lower (str_exn e))"
    by (rule insufficient_quota_lower)
  then have "error_answer (str_exn e) = billing_message" by (simp add: error_answer_def)
  with assms(1) have 1: "result_of (query env a q h) = Inr (Some billing_message)"
    by (simp add: query_result)
  have 2: "length (filter is_synthesis_call (events_of (query env a q h))) \<le> 1"
    by (simp only: query_synthesis_events query_body_synthesis_events)
  have 3: "isl (result_of (gather env a q h)) \<longrightarrow>
            filter is_synthesis_call (events_of (query env a q h)) = []"
  proof
    assume "isl (result_of (gather env a q h))"
    then obtain e' where "result_of (gather env a q h) = Inl e'"
      by (cases "result_of (gather env a q h)") auto
    then have "events_of (query_body env a q h) = events_of (gather env a q h)"
      using query_body_gather_fails by blast
    then show "filter is_synthesis_call (events_of (query env a q h)) = []"
      by (simp only: query_synthesis_events gather_events)
  qed
  from 1 2 3 show ?thesis by blast
qed

theorem quota_failure_answer_witness:
  "result_of (query_body classifier_quota_env demo_agent ''what spaces do we have?'' True) =
     Inl (Exception ''Error: insufficient_quota'') \<and>
   py_in ''insufficient_quota'' (str_exn (Exception ''Error: insufficient_quota'')) \<and>
   isl (result_of (gather classifier_quota_env demo_agent ''what spaces do we have?'' True)) \<and>
   result_of (query classifier_quota_env demo_agent ''what spaces do we have?'' True) =
     Inr (Some billing_message) \<and>
   filter is_synthesis_call
     (events_of (query classifier_quota_env demo_agent ''what spaces do we have?'' True)) = []"
proof -
  let ?q = "''what spaces do we have?''"
  have g: "result_of (gather classifier_quota_env demo_agent ?q True) =
      Inl (Exception ''Error: insufficient_quota'')"
    by (simp add: gather_def classify_def bind_p_def call_chat_def classifier_quota_env_def
        result_of_def)
  then have b: "result_of (query_body classifier_quota_env demo_agent ?q True) =
      Inl (Exception ''Error: insufficient_quota'')"
    using query_body_gather_fails by blast
  have p: "py_in ''insufficient_quota'' (str_exn (Exception ''Error: insufficient_quota''))"
    by simp
  from quota_failure_answer [OF b p] g b p show ?thesis by simp
qed

text \<open>
  Claim C2 as stated fails when it is the second call itself that raises: the billing
  message is returned, and the second call has been made.
\<close>

theorem synthesis_called_before_quota_failure:
  "result_of (query_body synthesis_quota_env demo_agent ''what spaces do we have?'' True) =
     Inl (Exception ''Error: insufficient_quota'') \<and>
   py_in ''insufficient_quota'' ''Error: insufficient_quota'' \<and>
   result_of (query synthesis_quota_env demo_agent ''what spaces do we have?'' True) =
     Inr (Some billing_message) \<and>
   filter is_synthesis_call
     (events_of (query synthesis_quota_env demo_agent ''what spaces do we have?'' True)) =
     [Chat (synthesis_request demo_agent ''what spaces do we have?'' ''No spaces found.'')]"
proof -
  let ?q = "''what spaces do we have?''"
  have b: "query_body synthesis_quota_env demo_agent ?q True =
     (Inl (Exception ''Error: insufficient_quota''), True,
      [Chat (classifier_request demo_agent ?q),
       Api (GetAllSpaces (JInt 100) (Some ''description.plain'')),
       Log LInfo ''Retrieved 0 spaces'',
       Chat (synthesis_request demo_agent ?q ''No spaces found.'')])"
  proof -
    have "synthesize synthesis_quota_env demo_agent ?q ''No spaces found.'' True =
       (Inl (Exception ''Error: insufficient_quota''), True,
        [Chat (synthesis_request demo_agent ?q ''No spaces found.'')])"
      by (simp add: synthesize_def bind_p_def call_chat_def synthesis_quota_env_def
          temperature_synthesis)
    then show ?thesis by (simp add: query_body_cases gather_synthesis_quota)
  qed
  have m: "error_answer ''Error: insufficient_quota'' = billing_message"
    by (simp add: error_answer_def lower_def lower_char_def)
  have p: "py_in ''insufficient_quota'' ''Error: insufficient_quota''" by simp
  from b m p show ?thesis
    by (simp add: query_cases result_of_def events_of_def temperature_classifier
        temperature_synthesis)
qed

text \<open>
  Claim C9. A query raises nothing: it returns a value in every case, and when an
  exception ends the \<^verbatim>\<open>try\<close> block, raised by the classifier's call, by the parsing
  of its answer, by the fetching of the data or by the second call of the language
  model, the value is the text chosen for that exception.
\<close>

theorem query_never_raises:
  "(\<exists>answer. result_of (query env a q h) = Inr answer) \<and>
   (result_of (query_body env a q h) = Inl e \<longrightarrow>
      result_of (query env a q h) = Inr (Some (error_answer (str_exn e)))) \<and>
   (chat_create env (classifier_request a q) = Inl e \<longrightarrow>
      result_of (query env a q h) = Inr (Some (error_answer (str_exn e)))) \<and>
   (chat_create env (classifier_request a q) = Inr (Some reply # others) \<and>
    json_loads env reply = Inl e \<longrightarrow>
      result_of (query env a q h) = Inr (Some (error_answer (str_exn e)))) \<and>
   (result_of (gather env a q h) = Inl e \<longrightarrow>
      result_of (query env a q h) = Inr (Some (error_answer (str_exn e)))) \<and>
   (result_of (gather env a q h) = Inr d \<and>
    chat_create env (synthesis_request a q d) = Inl e \<longrightarrow>
      result_of (query env a q h) = Inr (Some (error_answer (str_exn e))))"
proof -
  have 1: "\<exists>answer. result_of (query env a q h) = Inr answer"
    by (cases "result_of (query_body env a q h)") (simp_all add: query_result)
  have 2: "result_of (query_body env a q h) = Inl e \<longrightarrow>
      result_of (query env a q h) = Inr (Some (error_answer (str_exn e)))"
    by (simp add: query_failure)
  have 5: "result_of (gather env a q h) = Inl e \<longrightarrow>
      result_of (query env a q h) = Inr (Some (error_answer (str_exn e)))"
    using query_body_gather_fails query_failure by blast
  have 3: "chat_create env (classifier_request a q) = Inl e \<longrightarrow>
      result_of (query env a q h) = Inr (Some (error_answer (str_exn e)))"
    using classifier_fails 5 by blast
  have 4: "chat_create env (classifier_request a q) = Inr (Some reply # others) \<and>
    json_loads env reply = Inl e \<longrightarrow>
      result_of (query env a q h) = Inr (Some (error_answer (str_exn e)))"
    using parse_fails 5 by blast
  have 6: "result_of (gather env a q h) = Inr d \<and>
    chat_create env (synthesis_request a q d) = Inl e \<longrightarrow>
      result_of (query env a q h) = Inr (Some (error_answer (str_exn e)))"
    using synthesis_fails query_failure by blast
  from 1 2 3 4 5 6 show ?thesis by (intro conjI)
qed

theorem query_never_raises_witness:
  "chat_create classifier_quota_env (classifier_request demo_agent ''what spaces do we have?'') =
     Inl (Exception ''Error: insufficient_quota'') \<and>
   result_of (gather classifier_quota_env demo_agent ''what spaces do we have?'' True) =
     Inl (Exception ''Error: insufficient_quota'') \<and>
   result_of (query_body classifier_quota_env demo_agent ''what spaces do we have?'' True) =
     Inl (Exception ''Error: insufficient_quota'') \<and>
   result_of (query classifier_quota_env demo_agent ''what spaces do we have?'' True) =
     Inr (Some billing_message) \<and>
   chat_create bad_json_env (classifier_request demo_agent ''what spaces do we have?'') =
     Inr [Some ''not json''] \<and>
   json_loads bad_json_env ''not json'' =
     Inl (Exception ''Expecting value: line 1 column 1 (char 0)'') \<and>
   result_of (query bad_json_env demo_agent ''what spaces do we have?'' True) =
     Inr (Some (''I encountered an error while processing your query: '' @
                ''Expecting value: line 1 column 1 (char 0)'')) \<and>
   result_of (gather synthesis_quota_env demo_agent ''what spaces do we have?'' True) =
     Inr ''No spaces found.'' \<and>
   chat_create synthesis_quota_env
     (synthesis_request demo_agent ''what spaces do we have?'' ''No spaces found.'') =
     Inl (Exception ''Error: insufficient_quota'') \<and>
   result_of (query synthesis_quota_env demo_agent ''what spaces do we have?'' True) =
     Inr (Some billing_message)"
proof -
  let ?q = "''what spaces do we have?''"
  let ?e = "Exception ''Error: insufficient_quota''"
  let ?p = "Exception ''Expecting value: line 1 column 1 (char 0)''"
  have m1: "error_answer (str_exn ?e) = billing_message"
    by (simp add: error_answer_def lower_def lower_char_def)
  have m2: "error_answer (str_exn ?p) =
      ''I encountered an error while processing your query: '' @
      ''Expecting value: line 1 column 1 (char 0)''"
    by (simp add: error_answer_def lower_def lower_char_def)
  have a1: "chat_create classifier_quota_env (classifier_request demo_agent ?q) = Inl ?e"
    by (simp add: classifier_quota_env_def)
  have a2: "result_of (gather classifier_quota_env demo_agent ?q True) = Inl ?e"
    using a1 by (rule classifier_fails)
  have a3: "result_of (query_body classifier_quota_env demo_agent ?q True) = Inl ?e"
    using a2 query_body_gather_fails by blast
  have b1: "chat_create bad_json_env (classifier_request demo_agent ?q) = Inr [Some ''not json'']"
    by (simp add: bad_json_env_def)
  have b2: "json_loads bad_json_env ''not json'' = Inl ?p"
    by (simp add: bad_json_env_def)
  have c1: "result_of (gather synthesis_quota_env demo_agent ?q True) = Inr ''No spaces found.''"
    by (simp add: gather_synthesis_quota result_of_def)
  have c2: "chat_create synthesis_quota_env (synthesis_request demo_agent ?q ''No spaces found.'') =
      Inl ?e"
    by (simp add: synthesis_quota_env_def temperature_synthesis)
  from query_never_raises [where env = classifier_quota_env and a = demo_agent and q = "?q"
      and h = True and e = "?e"] a1
  have r1: "result_of (query classifier_quota_env demo_agent ?q True) = Inr (Some billing_message)"
    by (simp only: m1)
  from query_never_raises [where env = bad_json_env and a = demo_agent and q = "?q"
      and h = True and e = "?p" and reply = "''not json''" and others = "[]"] b1 b2
  have r2: "result_of (query bad_json_env demo_agent ?q True) =
      Inr (Some (''I encountered an error while processing your query: '' @
                ''Expecting value: line 1 column 1 (char 0)''))"
    by (simp only: m2)
  from query_never_raises [where env = synthesis_quota_env and a = demo_agent and q = "?q"
      and h = True and e = "?e" and d = "''No spaces found.''"] c1 c2
  have r3: "result_of (query synthesis_quota_env demo_agent ?q True) = Inr (Some billing_message)"
    by (simp only: m1)
  from a1 a2 a3 r1 b1 b2 r2 c1 c2 r3 show ?thesis by (intro conjI)
qed

text \<open>
  Claim C10. The text for an exception is chosen by the marks in its message, in a fixed
  order: the marks of a quota failure first, then those of an authentication failure,
  then those of a model failure, and the general text when there is none. The choice is
  made for every exception that ends the \<^verbatim>\<open>try\<close> block, whatever raised it: when the
  wiki fails on a request for the spaces with a message that holds 404 or the word
  model, and no earlier mark, the query returns the guidance on the model name.
\<close>

theorem error_mapping_order:
  "(quota_marks m \<longrightarrow> error_answer m = billing_message) \<and>
   (\<not> quota_marks m \<and> auth_marks m \<longrightarrow> error_answer m = auth_message) \<and>
   (\<not> quota_marks m \<and> \<not> auth_marks m \<and> model_marks m \<longrightarrow> error_answer m = model_message) \<and>
   (\<not> quota_marks m \<and> \<not> auth_marks m \<and> \<not> model_marks m \<longrightarrow>
      error_answer m = ''I encountered an error while processing your query: '' @ m) \<and>
   (result_of (query_body env a q h) = Inl e \<longrightarrow>
      result_of (query env a q h) = Inr (Some (error_answer (str_exn e)))) \<and>
   (can_connect env (confluence a) h \<and>
    chat_create env (classifier_request a q) = Inr (Some reply # others) \<and>
    json_loads env reply = Inr (JDict d) \<and>
    dict_get d ''action'' (JStr ''general'') = JStr ''get_spaces'' \<and>
    confluence_api env
      (GetAllSpaces (dict_get d ''max_results'' (JInt 100)) (Some ''description.plain'')) = Inl e \<and>
    \<not> quota_marks (str_exn e) \<and> \<not> auth_marks (str_exn e) \<and> model_marks (str_exn e) \<longrightarrow>
      result_of (query env a q h) = Inr (Some model_message))"
proof -
  have q: "\<not> quota_marks m \<Longrightarrow> \<not> py_in ''insufficient_quota'' (lower m)" for m
    using py_in_quota by (auto simp: quota_marks_def)
  have 1: "quota_marks m \<longrightarrow> error_answer m = billing_message"
    by (auto simp: quota_marks_def error_answer_def)
  have 2: "\<not> quota_marks m \<and> auth_marks m \<longrightarrow> error_answer m = auth_message"
    using q [of m] by (auto simp: quota_marks_def auth_marks_def error_answer_def)
  have 3: "\<not> quota_marks m \<and> \<not> auth_marks m \<and> model_marks m \<longrightarrow> error_answer m = model_message" for m
    using q [of m] by (auto simp: quota_marks_def auth_marks_def model_marks_def error_answer_def)
  have 4: "\<not> quota_marks m \<and> \<not> auth_marks m \<and> \<not> model_marks m \<longrightarrow>
      error_answer m = ''I encountered an error while processing your query: '' @ m"
    using q [of m] by (auto simp: quota_marks_def auth_marks_def model_marks_def error_answer_def)
  have 5: "result_of (query_body env a q h) = Inl e \<longrightarrow>
      result_of (query env a q h) = Inr (Some (error_answer (str_exn e)))"
    by (simp add: query_failure)
  have 6: "can_connect env (confluence a) h \<and>
    chat_create env (classifier_request a q) = Inr (Some reply # others) \<and>
    json_loads env reply = Inr (JDict d) \<and>
    dict_get d ''action'' (JStr ''general'') = JStr ''get_spaces'' \<and>
    confluence_api env
      (GetAllSpaces (dict_get d ''max_results'' (JInt 100)) (Some ''description.plain'')) = Inl e \<and>
    \<not> quota_marks (str_exn e) \<and> \<not> auth_marks (str_exn e) \<and> model_marks (str_exn e) \<longrightarrow>
      result_of (query env a q h) = Inr (Some model_message)"
  proof
    assume a: "can_connect env (confluence a) h \<and>
      chat_create env (classifier_request a q) = Inr (Some reply # others) \<and>
      json_loads env reply = Inr (JDict d) \<and>
      dict_get d ''action'' (JStr ''general'') = JStr ''get_spaces'' \<and>
      confluence_api env
        (GetAllSpaces (dict_get d ''max_results'' (JInt 100)) (Some ''description.plain'')) = Inl e \<and>
      \<not> quota_marks (str_exn e) \<and> \<not> auth_marks (str_exn e) \<and> model_marks (str_exn e)"
    then have "result_of (gather env a q h) = Inl e"
      by (intro gather_get_spaces_fails) auto
    then have "result_of (query env a q h) = Inr (Some (error_answer (str_exn e)))"
      using query_body_gather_fails query_failure by blast
    moreover have "error_answer (str_exn e) = model_message" using a 3 [of "str_exn e"] by blast
    ultimately show "result_of (query env a q h) = Inr (Some model_message)" by simp
  qed
  from 1 2 3 [of m] 4 5 6 show ?thesis by (intro conjI)
qed

theorem error_mapping_order_witness:
  "quota_marks ''429 Too Many Requests: unauthorized model'' \<and>
   error_answer ''429 Too Many Requests: unauthorized model'' = billing_message \<and>
   \<not> quota_marks ''401 Unauthorized for model'' \<and> auth_marks ''401 Unauthorized for model'' \<and>
   error_answer ''401 Unauthorized for model'' = auth_message \<and>
   \<not> quota_marks ''404 Client Error: Not Found'' \<and> \<not> auth_marks ''404 Client Error: Not Found'' \<and>
   model_marks ''404 Client Error: Not Found'' \<and>
   error_answer ''404 Client Error: Not Found'' = model_message \<and>
   \<not> quota_marks ''Connection reset by peer'' \<and> \<not> auth_marks ''Connection reset by peer'' \<and>
   \<not> model_marks ''Connection reset by peer'' \<and>
   error_answer ''Connection reset by peer'' =
     ''I encountered an error while processing your query: Connection reset by peer'' \<and>
   can_connect not_found_env (confluence demo_agent) True \<and>
   chat_create not_found_env (classifier_request demo_agent ''what spaces do we have?'') =
     Inr [Some ''get_spaces''] \<and>
   json_loads not_found_env ''get_spaces'' = Inr (JDict [(''action'', JStr ''get_spaces'')]) \<and>
   confluence_api not_found_env (GetAllSpaces (JInt 100) (Some ''description.plain'')) =
     Inl (Exception ''404 Client Error: Not Found'') \<and>
   result_of (query_body not_found_env demo_agent ''what spaces do we have?'' True) =
     Inl (Exception ''404 Client Error: Not Found'') \<and>
   result_of (query not_found_env demo_agent ''what spaces do we have?'' True) =
     Inr (Some model_message)"
proof -
  let ?q = "''what spaces do we have?''"
  let ?d = "[(''action'', JStr ''get_spaces'')]"
  let ?e = "Exception ''404 Client Error: Not Found''"
  have k1: "quota_marks ''429 Too Many Requests: unauthorized model''"
    by (simp add: quota_marks_def)
  have k2: "\<not> quota_marks ''401 Unauthorized for model'' \<and> auth_marks ''401 Unauthorized for model''"
    by (simp add: quota_marks_def auth_marks_def lower_def lower_char_def)
  have k3: "\<not> quota_marks ''404 Client Error: Not Found'' \<and>
      \<not> auth_marks ''404 Client Error: Not Found'' \<and> model_marks ''404 Client Error: Not Found''"
    by (simp add: quota_marks_def auth_marks_def model_marks_def lower_def lower_char_def)
  have k4: "\<not> quota_marks ''Connection reset by peer'' \<and> \<not> auth_marks ''Connection reset by peer'' \<and>
      \<not> model_marks ''Connection reset by peer''"
    by (simp add: quota_marks_def auth_marks_def model_marks_def lower_def lower_char_def)
  have n1: "can_connect not_found_env (confluence demo_agent) True"
    by (simp add: can_connect_def)
  have n2: "chat_create not_found_env (classifier_request demo_agent ?q) = Inr [Some ''get_spaces'']"
    by (simp add: not_found_env_def)
  have n3: "json_loads not_found_env ''get_spaces'' = Inr (JDict ?d)"
    by (simp add: not_found_env_def)
  have n4: "dict_get ?d ''action'' (JStr ''general'') = JStr ''get_spaces''"
    by (simp add: dict_get_def)
  have n5: "dict_get ?d ''max_results'' (JInt 100) = JInt 100"
    by (simp add: dict_get_def)
  have n6: "confluence_api not_found_env (GetAllSpaces (JInt 100) (Some ''description.plain'')) = Inl ?e"
    by (simp add: not_found_env_def)
  have n7: "result_of (query_body not_found_env demo_agent ?q True) = Inl ?e"
  proof -
    have "result_of (gather not_found_env demo_agent ?q True) = Inl ?e"
      using n1 n2 n3 n4 by (rule gather_get_spaces_fails) (simp add: n5 n6)
    then show ?thesis using query_body_gather_fails by blast
  qed
  note t1 = error_mapping_order [where m = "''429 Too Many Requests: unauthorized model''"]
  note t2 = error_mapping_order [where m = "''401 Unauthorized for model''"]
  note t3 = error_mapping_order [where m = "''404 Client Error: Not Found''"
      and env = not_found_env and a = demo_agent and q = "?q" and h = True and e = "?e"
      and reply = "''get_spaces''" and others = "[]" and d = "?d"]
  note t4 = error_mapping_order [where m = "''Connection reset by peer''"]
  have r1: "error_answer ''429 Too Many Requests: unauthorized model'' = billing_message"
    using t1 k1 by blast
  have r2: "error_answer ''401 Unauthorized for model'' = auth_message"
    using t2 k2 by blast
  have r3: "error_answer ''404 Client Error: Not Found'' = model_message"
    using t3 k3 by blast
  have r4: "error_answer ''Connection reset by peer'' =
      ''I encountered an error while processing your query: Connection reset by peer''"
    using t4 k4 by simp
  have r5: "result_of (query not_found_env demo_agent ?q True) = Inr (Some model_message)"
    using t3 n1 n2 n3 n4 n5 n6 k3 by simp
  from k1 r1 k2 r2 k3 r3 k4 r4 n1 n2 n3 n6 n7 r5 show ?thesis by (intro conjI) simp_all
qed

end
